theory Spec2Isabelle
  imports Main "HOL-Library.AList" "HOL-Library.Sublist" "HOL-Library.Infinite_Set"
begin

section \<open>Python values and library functions used by the two modules\<close>

text \<open>
  Payloads that travel through the tracker (a task's result, a failure detail, a task
  state) are only ever compared with a string constant, rendered with \<^verbatim>\<open>str()\<close>
  or passed on. A value is therefore either a Python \<^verbatim>\<open>str\<close> or any other object,
  which is represented by the text \<^verbatim>\<open>str()\<close> returns for it.
\<close>

datatype pyval = PyStr string | PyObj string

fun py_str :: "pyval \<Rightarrow> string" where
  "py_str (PyStr s) = s"
| "py_str (PyObj r) = r"

text \<open>The exceptions the modelled code can raise by itself.\<close>

datatype pyerror = TypeError | KeyError | AttributeError

text \<open>
  \<^verbatim>\<open>html.escape(s)\<close> of the Python standard library (with its default
  \<^verbatim>\<open>quote=True\<close>): five successive \<^verbatim>\<open>str.replace\<close> calls, each replacing one
  character, the ampersand first.
\<close>

definition replace_char :: "char \<Rightarrow> string \<Rightarrow> string \<Rightarrow> string" where
  "replace_char c r s = concat (map (\<lambda>x. if x = c then r else [x]) s)"

definition html_escape :: "string \<Rightarrow> string" where
  "html_escape s =
     replace_char (CHR 0x27) ''&#x27;''
       (replace_char (CHR 0x22) ''&quot;''
         (replace_char (CHR ''>'') ''&gt;''
           (replace_char (CHR ''<'') ''&lt;''
             (replace_char (CHR ''&'') ''&amp;'' s))))"

text \<open>The task states of \<^verbatim>\<open>celery.states\<close> the code names.\<close>

definition PENDING :: pyval where "PENDING = PyStr ''PENDING''"
definition SUCCESS :: pyval where "SUCCESS = PyStr ''SUCCESS''"
definition FAILURE :: pyval where "FAILURE = PyStr ''FAILURE''"

section \<open>Reception (modules/Reception/app.py)\<close>

text \<open>
  A bottle handler either returns or raises. \<^verbatim>\<open>redirect\<close> and \<^verbatim>\<open>abort\<close> raise an
  \<^verbatim>\<open>HTTPResponse\<close>; bottle sends a raised \<^verbatim>\<open>HTTPResponse\<close> exactly as it sends a
  returned one. \<open>Page u\<close> is the landing page rendered with display name \<open>u\<close>.
\<close>

datatype response = Page string | Redirect string | HttpError nat

datatype exn = HTTPResponse response | Exception pyerror

datatype 'a outcome = Returns 'a | Raises exn

text \<open>
  The arguments of \<^verbatim>\<open>loginCheck\<close>. The routes also call the installed function with
  no argument at all (\<^verbatim>\<open>self.login_check()\<close>), which is the argument \<open>None\<close> of a
  \<open>login_fun\<close>.
\<close>

record login_args =
  project :: "string option"
  admin :: bool
  superuser :: bool
  canCreateProjects :: bool
  extend_session :: bool

type_synonym login_fun = "login_args option \<Rightarrow> bool outcome"

record reception =
  demoMode :: bool
  login_check :: "login_fun option"

text \<open>The request: the \<^verbatim>\<open>username\<close> cookie and the query parameter \<^verbatim>\<open>t\<close>.\<close>

record request =
  cookie_username :: "string option"
  query_t :: "string option"

text \<open>The two operations of \<^verbatim>\<open>ReceptionMiddleware\<close> the routes call.\<close>

record 'i middleware =
  get_project_info :: "string \<Rightarrow> bool \<Rightarrow> 'i outcome"
  enroll :: "string \<Rightarrow> string \<Rightarrow> string option \<Rightarrow> bool outcome"

text \<open>\<^verbatim>\<open>__init__\<close>: no login check is installed.\<close>

definition init_reception :: "bool \<Rightarrow> reception" where
  "init_reception demo = \<lparr>demoMode = demo, login_check = None\<rparr>"

text \<open>Calling \<^verbatim>\<open>self.login_check\<close>; calling \<^verbatim>\<open>None\<close> raises \<^verbatim>\<open>TypeError\<close>.\<close>

definition call_login_check :: "reception \<Rightarrow> login_args option \<Rightarrow> bool outcome" where
  "call_login_check r args =
     (case login_check r of
        None \<Rightarrow> Raises (Exception TypeError)
      | Some f \<Rightarrow> f args)"

definition loginCheck :: "reception \<Rightarrow> login_args \<Rightarrow> bool outcome" where
  "loginCheck r args = call_login_check r (Some args)"

definition addLoginCheckFun :: "login_fun \<Rightarrow> reception \<Rightarrow> reception" where
  "addLoginCheckFun loginCheckFun r =
     (if \<not> demoMode r then r\<lparr>login_check := Some loginCheckFun\<rparr> else r)"

text \<open>
  \<^verbatim>\<open>html.escape(request.get_cookie('username'))\<close>: an absent cookie is \<^verbatim>\<open>None\<close>,
  on which \<^verbatim>\<open>html.escape\<close> raises \<^verbatim>\<open>AttributeError\<close>.
\<close>

definition escaped_cookie :: "request \<Rightarrow> string outcome" where
  "escaped_cookie req =
     (case cookie_username req of
        None \<Rightarrow> Raises (Exception AttributeError)
      | Some c \<Rightarrow> Returns (html_escape c))"

text \<open>The display name of route \<^verbatim>\<open>/\<close>, before the bare \<^verbatim>\<open>except\<close>.\<close>

definition projects_username :: "reception \<Rightarrow> request \<Rightarrow> string outcome" where
  "projects_username r req =
     (if demoMode r then Returns ''Demo mode''
      else (case call_login_check r None of
              Raises e \<Rightarrow> Raises e
            | Returns logged_in \<Rightarrow>
                if logged_in then escaped_cookie req else Returns ''''))"

definition projects :: "reception \<Rightarrow> request \<Rightarrow> response" where
  "projects r req =
     Page (case projects_username r req of Raises e \<Rightarrow> '''' | Returns username \<Rightarrow> username)"

text \<open>
  Route \<^verbatim>\<open>/getProjects\<close>. The first login check is inside \<^verbatim>\<open>try\<close>, the call of
  \<^verbatim>\<open>loginCheck(superuser=True)\<close> is not: what it raises leaves the handler.
\<close>

definition get_projects_username :: "reception \<Rightarrow> request \<Rightarrow> string" where
  "get_projects_username r req =
     (case (case call_login_check r None of
              Raises e \<Rightarrow> Raises e
            | Returns logged_in \<Rightarrow>
                if logged_in then escaped_cookie req else Returns '''') of
        Raises e \<Rightarrow> ''''
      | Returns username \<Rightarrow> username)"

definition get_projects :: "reception \<Rightarrow> 'i middleware \<Rightarrow> request \<Rightarrow> 'i outcome" where
  "get_projects r mw req =
     (let username = get_projects_username r req in
      case loginCheck r \<lparr>project = None, admin = False, superuser = True,
                         canCreateProjects = False, extend_session = False\<rparr> of
        Raises e \<Rightarrow> Raises e
      | Returns isSuperUser \<Rightarrow> get_project_info mw username isSuperUser)"

text \<open>
  Route \<^verbatim>\<open>/<project>/enroll\<close>. The two \<^verbatim>\<open>except\<close> clauses: a raised
  \<^verbatim>\<open>HTTPResponse\<close> is returned, any other exception ends in \<^verbatim>\<open>abort(400)\<close>.
\<close>

fun enroll_except :: "exn \<Rightarrow> response" where
  "enroll_except (HTTPResponse res) = res"
| "enroll_except (Exception e) = HttpError 400"

definition enroll_in_project :: "reception \<Rightarrow> 'i middleware \<Rightarrow> request \<Rightarrow> string \<Rightarrow> response" where
  "enroll_in_project r mw req proj =
     (case call_login_check r None of
        Raises e \<Rightarrow> enroll_except e
      | Returns logged_in \<Rightarrow>
          if \<not> logged_in then enroll_except (HTTPResponse (Redirect ''/''))
          else (case escaped_cookie req of
                  Raises e \<Rightarrow> enroll_except e
                | Returns username \<Rightarrow>
                    (let providedToken = map_option html_escape (query_t req) in
                     case enroll mw proj username providedToken of
                       Raises e \<Rightarrow> enroll_except e
                     | Returns success \<Rightarrow>
                         if \<not> success then enroll_except (HTTPResponse (HttpError 401))
                         else enroll_except
                                (HTTPResponse (Redirect (''/'' @ proj @ ''/interface''))))))"

section \<open>Job/status tracker (modules/AIController/backend/messageProcessor.py)\<close>

subsection \<open>Data\<close>

text \<open>
  A Python \<^verbatim>\<open>dict\<close> with string keys keeps its insertion order, which the loops over
  \<^verbatim>\<open>keys()\<close> follow: it is an association list. \<^verbatim>\<open>d[k] = v\<close> is \<open>AList.update\<close>
  (an existing key keeps its place, a new key goes last), \<^verbatim>\<open>k in d\<close> is
  \<open>map_of d k \<noteq> None\<close>.
\<close>

type_synonym 'a pydict = "(string \<times> 'a) list"

text \<open>
  A status record is the dict with the keys \<^verbatim>\<open>type\<close>, \<^verbatim>\<open>submitted\<close>, \<^verbatim>\<open>status\<close>
  and \<^verbatim>\<open>meta\<close>. Its \<^verbatim>\<open>meta\<close> is either a dict \<^verbatim>\<open>{'message': m}\<close> or the result
  payload of a task, as the backend gave it.
\<close>

datatype meta_info = Message string | Payload pyval

record status_record =
  type :: string
  submitted :: string
  status :: pyval
  meta :: meta_info

text \<open>
  A job handle: its \<^verbatim>\<open>id\<close> and what \<^verbatim>\<open>job.children\<close> gives when
  \<^verbatim>\<open>register_job\<close> reads it: the task ids of the children of a group, or \<open>None\<close>
  when the attribute is missing or is \<^verbatim>\<open>None\<close>.
\<close>

record job =
  job_id :: string
  children :: "string list option"

text \<open>
  The fields of \<^verbatim>\<open>MessageProcessor\<close>, and the two traces the tracker leaves on the queue:
  the task ids it called \<^verbatim>\<open>forget()\<close> on and the control messages it broadcast.
\<close>

record 'cb tracker =
  jobs :: "job list pydict"
  messages :: "status_record pydict pydict"
  on_complete :: "'cb option pydict"
  forgotten :: "string list"
  broadcast :: "string list"

text \<open>\<^verbatim>\<open>__init__\<close>.\<close>

definition init_tracker :: "'cb tracker" where
  "init_tracker = \<lparr>jobs = [], messages = [], on_complete = [], forgotten = [], broadcast = []\<rparr>"

text \<open>
  A task as a worker reports it: \<^verbatim>\<open>task['id']\<close>, \<^verbatim>\<open>task['name']\<close> and
  \<^verbatim>\<open>task['delivery_info']['routing_key']\<close>.
\<close>

record worker_task =
  tid :: string
  tname :: string
  routing_key :: string

text \<open>
  What the queue answers during one call of the tracker: \<^verbatim>\<open>inspect().stats()\<close>,
  \<^verbatim>\<open>.active()\<close> and \<^verbatim>\<open>.scheduled()\<close> (each \<^verbatim>\<open>None\<close> or a dict keyed by worker),
  \<^verbatim>\<open>backend.get_task_meta(key)\<close>, \<^verbatim>\<open>AsyncResult(key).ready()\<close> and
  \<^verbatim>\<open>str(current_time())\<close>.
\<close>

record celery =
  stats :: "pyval pydict option"
  active :: "worker_task list pydict option"
  scheduled :: "pyval list pydict option"
  get_task_meta :: "string \<Rightarrow> pyval pydict"
  ready :: "string \<Rightarrow> bool"
  current_time :: string

subsection \<open>Access to the two stores\<close>

text \<open>
  \<^verbatim>\<open>self.messages[project]\<close> and \<^verbatim>\<open>self.jobs[project]\<close>; the code reads them only
  where the key is present.
\<close>

definition project_messages :: "'cb tracker \<Rightarrow> string \<Rightarrow> status_record pydict" where
  "project_messages s p = (case map_of (messages s) p of None \<Rightarrow> [] | Some m \<Rightarrow> m)"

definition project_jobs :: "'cb tracker \<Rightarrow> string \<Rightarrow> job list" where
  "project_jobs s p = (case map_of (jobs s) p of None \<Rightarrow> [] | Some js \<Rightarrow> js)"

text \<open>\<^verbatim>\<open>if not project in self.messages: self.messages[project] = {}\<close>\<close>

definition ensure_messages :: "string \<Rightarrow> 'cb tracker \<Rightarrow> 'cb tracker" where
  "ensure_messages p s =
     (if map_of (messages s) p = None then s\<lparr>messages := AList.update p [] (messages s)\<rparr> else s)"

text \<open>\<^verbatim>\<open>if not project in self.jobs: self.jobs[project] = []\<close>\<close>

definition ensure_jobs :: "string \<Rightarrow> 'cb tracker \<Rightarrow> 'cb tracker" where
  "ensure_jobs p s =
     (if map_of (jobs s) p = None then s\<lparr>jobs := AList.update p [] (jobs s)\<rparr> else s)"

text \<open>\<^verbatim>\<open>self.messages[project][k] = r\<close>\<close>

definition set_message :: "string \<Rightarrow> string \<Rightarrow> status_record \<Rightarrow> 'cb tracker \<Rightarrow> 'cb tracker" where
  "set_message p k r s =
     s\<lparr>messages := AList.update p (AList.update k r (project_messages s p)) (messages s)\<rparr>"

text \<open>\<^verbatim>\<open>self.jobs[project].append(job)\<close>\<close>

definition append_job :: "string \<Rightarrow> job \<Rightarrow> 'cb tracker \<Rightarrow> 'cb tracker" where
  "append_job p j s = s\<lparr>jobs := AList.update p (project_jobs s p @ [j]) (jobs s)\<rparr>"

text \<open>\<^verbatim>\<open>result.forget()\<close>\<close>

definition forget :: "string \<Rightarrow> 'cb tracker \<Rightarrow> 'cb tracker" where
  "forget k s = s\<lparr>forgotten := forgotten s @ [k]\<rparr>"

text \<open>\<^verbatim>\<open>sub in s\<close> on strings.\<close>

fun py_in :: "string \<Rightarrow> string \<Rightarrow> bool" where
  "py_in sub [] = (sub = [])"
| "py_in sub (c # cs) = (prefix sub (c # cs) \<or> py_in sub cs)"

text \<open>\<^verbatim>\<open>'train' if 'train' in task['name'] else 'inference'\<close>\<close>

definition type_of_name :: "string \<Rightarrow> string" where
  "type_of_name n = (if py_in ''train'' n then ''train'' else ''inference'')"

subsection \<open>Tasks seen at the workers\<close>

text \<open>
  In \<^verbatim>\<open>__add_worker_task\<close> and in \<^verbatim>\<open>pollNow\<close> the \<^verbatim>\<open>try\<close> block that computes
  \<^verbatim>\<open>timeSubmitted\<close> starts by evaluating the name \<^verbatim>\<open>datetime\<close>, which the module
  never imports: the block raises \<^verbatim>\<open>NameError\<close> each time and the bare \<^verbatim>\<open>except\<close>
  sets \<^verbatim>\<open>str(current_time())\<close>.
\<close>

definition worker_record :: "celery \<Rightarrow> worker_task \<Rightarrow> status_record" where
  "worker_record env t =
     \<lparr>type = type_of_name (tname t), submitted = current_time env, status = PENDING,
      meta = Message ''job at worker''\<rparr>"

definition add_worker_task :: "celery \<Rightarrow> worker_task \<Rightarrow> 'cb tracker \<Rightarrow> 'cb tracker" where
  "add_worker_task env task s =
     (let project = routing_key task;
          s1 = ensure_messages project s;
          s2 = (if map_of (project_messages s1 project) (tid task) = None
                then set_message project (tid task) (worker_record env task) s1
                else s1)
      in if ready env (tid task) then forget (tid task) s2 else s2)"

text \<open>
  \<^verbatim>\<open>key.replace('celery@', '')\<close>: every occurrence of \<^verbatim>\<open>celery@\<close>, found from the
  left, is dropped. The first argument counts the characters of the occurrence at hand
  that are still to be dropped.
\<close>

fun remove_celery :: "nat \<Rightarrow> string \<Rightarrow> string" where
  "remove_celery k [] = []"
| "remove_celery (Suc k) (c # cs) = remove_celery k cs"
| "remove_celery 0 (c # cs) =
     (if prefix ''celery@'' (c # cs) then remove_celery 6 cs else c # remove_celery 0 cs)"

definition workerName :: "string \<Rightarrow> string" where
  "workerName key = remove_celery 0 key"

record worker_status =
  active_tasks :: "string list"
  scheduled_tasks :: "pyval list"

text \<open>The inner loop of \<^verbatim>\<open>poll_worker_status\<close>, over the active tasks of one worker.\<close>

fun worker_tasks_loop ::
  "celery \<Rightarrow> string \<Rightarrow> worker_task list \<Rightarrow> string list \<Rightarrow> 'cb tracker \<Rightarrow> string list \<times> 'cb tracker"
where
  "worker_tasks_loop env proj [] activeTasks s = (activeTasks, s)"
| "worker_tasks_loop env proj (task # rest) activeTasks s =
     worker_tasks_loop env proj rest
       (if routing_key task = proj then activeTasks @ [tid task] else activeTasks)
       (add_worker_task env task s)"

text \<open>
  The body of the outer loop, for the worker \<open>key\<close> of \<^verbatim>\<open>stats\<close>.
  \<^verbatim>\<open>active_tasks[key]\<close> and \<^verbatim>\<open>scheduled_tasks[key]\<close> raise \<^verbatim>\<open>TypeError\<close> on
  \<^verbatim>\<open>None\<close> and \<^verbatim>\<open>KeyError\<close> on a worker that is missing.
\<close>

definition poll_worker ::
  "celery \<Rightarrow> string \<Rightarrow> string \<Rightarrow> 'cb tracker \<Rightarrow> (pyerror + worker_status) \<times> 'cb tracker"
where
  "poll_worker env proj key s =
     (case active env of
        None \<Rightarrow> (Inl TypeError, s)
      | Some act \<Rightarrow>
          (case map_of act key of
             None \<Rightarrow> (Inl KeyError, s)
           | Some taskList \<Rightarrow>
               (let looped = worker_tasks_loop env proj taskList [] s;
                    activeTasks = fst looped;
                    s1 = snd looped
                in case scheduled env of
                     None \<Rightarrow> (Inl TypeError, s1)
                   | Some sch \<Rightarrow>
                       (case map_of sch key of
                          None \<Rightarrow> (Inl KeyError, s1)
                        | Some sched \<Rightarrow>
                            (Inr \<lparr>active_tasks = activeTasks, scheduled_tasks = sched\<rparr>, s1)))))"

fun poll_workers_loop ::
  "celery \<Rightarrow> string \<Rightarrow> string list \<Rightarrow> worker_status pydict \<Rightarrow> 'cb tracker
     \<Rightarrow> (pyerror + worker_status pydict) \<times> 'cb tracker"
where
  "poll_workers_loop env proj [] workerStatus s = (Inr workerStatus, s)"
| "poll_workers_loop env proj (key # rest) workerStatus s =
     (case fst (poll_worker env proj key s) of
        Inl e \<Rightarrow> (Inl e, snd (poll_worker env proj key s))
      | Inr w \<Rightarrow>
          poll_workers_loop env proj rest (AList.update (workerName key) w workerStatus)
            (snd (poll_worker env proj key s)))"

definition poll_worker_status ::
  "celery \<Rightarrow> string \<Rightarrow> 'cb tracker \<Rightarrow> (pyerror + worker_status pydict) \<times> 'cb tracker"
where
  "poll_worker_status env proj s =
     (case stats env of
        None \<Rightarrow> (Inr [], s)
      | Some st \<Rightarrow>
          if st = [] then (Inr [], s)
          else poll_workers_loop env proj (map fst st) [] s)"

text \<open>The body of the loops of \<^verbatim>\<open>pollNow\<close>, for one task \<^verbatim>\<open>t\<close>.\<close>

definition pollNow_task :: "celery \<Rightarrow> 'cb tracker \<Rightarrow> worker_task \<Rightarrow> 'cb tracker" where
  "pollNow_task env s t =
     (let taskID = tid t;
          project = routing_key t;
          s1 = ensure_messages project s
      in if map_of (project_messages s1 project) taskID = None
         then append_job project \<lparr>job_id = taskID, children = None\<rparr>
                (ensure_jobs project (set_message project taskID (worker_record env t) s1))
         else s1)"

text \<open>
  \<^verbatim>\<open>pollNow\<close>. With statistics at hand, \<^verbatim>\<open>active_tasks.keys()\<close> raises
  \<^verbatim>\<open>AttributeError\<close> when \<^verbatim>\<open>active()\<close> gave \<^verbatim>\<open>None\<close>.
\<close>

definition pollNow :: "celery \<Rightarrow> 'cb tracker \<Rightarrow> pyerror + 'cb tracker" where
  "pollNow env s =
     (case stats env of
        None \<Rightarrow> Inr s
      | Some st \<Rightarrow>
          if st = [] then Inr s
          else (case active env of
                  None \<Rightarrow> Inl AttributeError
                | Some act \<Rightarrow>
                    Inr (foldl (\<lambda>s1 (key, taskList). foldl (pollNow_task env) s1 taskList) s act)))"

subsection \<open>Polling the result backend\<close>

text \<open>
  Lines 122 to 130 of \<^verbatim>\<open>__poll_tasks\<close>: the state \<^verbatim>\<open>msg['status']\<close> and the
  \<^verbatim>\<open>info\<close> built from a non-empty \<^verbatim>\<open>msg\<close>. A missing key \<^verbatim>\<open>status\<close> or
  \<^verbatim>\<open>result\<close> raises \<^verbatim>\<open>KeyError\<close>.
\<close>

definition poll_info :: "pyval pydict \<Rightarrow> pyerror + (pyval \<times> meta_info)" where
  "poll_info msg =
     (case map_of msg ''status'' of
        None \<Rightarrow> Inl KeyError
      | Some st \<Rightarrow>
          if st = FAILURE then
            (case map_of msg ''meta'' of
               Some detail \<Rightarrow> Inr (st, Message (html_escape (py_str detail)))
             | None \<Rightarrow> Inr (st, Message ''an unknown error occurred''))
          else
            (case map_of msg ''result'' of
               None \<Rightarrow> Inl KeyError
             | Some res \<Rightarrow> Inr (st, Payload res)))"

text \<open>
  The body of the loop of \<^verbatim>\<open>__poll_tasks\<close> for a task with a non-empty \<^verbatim>\<open>msg\<close>:
  the entry of \<^verbatim>\<open>status\<close> it writes, or the exception.
\<close>

definition poll_entry :: "status_record \<Rightarrow> pyval pydict \<Rightarrow> pyerror + status_record" where
  "poll_entry job msg =
     (case poll_info msg of
        Inl e \<Rightarrow> Inl e
      | Inr (st, info) \<Rightarrow>
          Inr \<lparr>type = type job, submitted = submitted job, status = st, meta = info\<rparr>)"

text \<open>
  The loop of \<^verbatim>\<open>__poll_tasks\<close> over the records of the project, with its two locals
  \<^verbatim>\<open>status\<close> and \<^verbatim>\<open>task_ongoing\<close>. A task whose \<^verbatim>\<open>msg\<close> is empty is passed over
  (\<^verbatim>\<open>continue\<close>).
\<close>

fun poll_tasks_loop ::
  "celery \<Rightarrow> status_record pydict \<Rightarrow> status_record pydict \<Rightarrow> bool \<Rightarrow> 'cb tracker
     \<Rightarrow> (pyerror + status_record pydict \<times> bool) \<times> 'cb tracker"
where
  "poll_tasks_loop env [] status_map task_ongoing s = (Inr (status_map, task_ongoing), s)"
| "poll_tasks_loop env ((key, job) # rest) status_map task_ongoing s =
     (if get_task_meta env key = [] then poll_tasks_loop env rest status_map task_ongoing s
      else (case poll_entry job (get_task_meta env key) of
              Inl e \<Rightarrow> (Inl e, s)
            | Inr entry \<Rightarrow>
                if \<not> ready env key
                then poll_tasks_loop env rest (AList.update key entry status_map) True s
                else poll_tasks_loop env rest (AList.update key entry status_map) task_ongoing
                       (forget key s)))"

definition poll_tasks ::
  "celery \<Rightarrow> string \<Rightarrow> 'cb tracker \<Rightarrow> (pyerror + status_record pydict \<times> bool) \<times> 'cb tracker"
where
  "poll_tasks env proj s =
     (if map_of (messages s) proj = None then (Inr ([], False), s)
      else poll_tasks_loop env (project_messages s proj) [] False s)"

definition poll_status ::
  "celery \<Rightarrow> string \<Rightarrow> 'cb tracker \<Rightarrow> (pyerror + status_record pydict) \<times> 'cb tracker"
where
  "poll_status env proj s =
     (case poll_tasks env proj s of
        (Inl e, s1) \<Rightarrow> (Inl e, s1)
      | (Inr (status_map, task_ongoing), s1) \<Rightarrow>
          if \<not> task_ongoing then
            (case poll_worker_status env proj s1 of
               (Inl e, s2) \<Rightarrow> (Inl e, s2)
             | (Inr workerStatus, s2) \<Rightarrow>
                 (case poll_tasks env proj s2 of
                    (Inl e, s3) \<Rightarrow> (Inl e, s3)
                  | (Inr (status_map2, ongoing2), s3) \<Rightarrow> (Inr status_map2, s3)))
          else (Inr status_map, s1))"

subsection \<open>Registering jobs\<close>

definition new_record :: "celery \<Rightarrow> string \<Rightarrow> status_record" where
  "new_record env taskType =
     \<lparr>type = taskType, submitted = current_time env, status = PENDING,
      meta = Message ''sending job to worker''\<rparr>"

definition register_job ::
  "celery \<Rightarrow> string \<Rightarrow> job \<Rightarrow> string \<Rightarrow> 'cb option \<Rightarrow> 'cb tracker \<Rightarrow> 'cb tracker"
where
  "register_job env proj j taskType cb s =
     (let s1 = append_job proj j (ensure_jobs proj s);
          s2 = ensure_messages proj s1;
          s3 = s2\<lparr>broadcast := broadcast s2 @ [''add_projects'']\<rparr>;
          s4 = (case children j of
                  Some cs \<Rightarrow>
                    foldl (\<lambda>s' child. set_message proj child (new_record env taskType) s') s3 cs
                | None \<Rightarrow>
                    if map_of (project_messages s3 proj) (job_id j) = None
                    then set_message proj (job_id j) (new_record env taskType) s3
                    else s3)
      in s4\<lparr>on_complete := AList.update (job_id j) cb (on_complete s4)\<rparr>)"

text \<open>
  \<^verbatim>\<open>task_id\<close>. \<open>uuid1 n\<close> is the text of the \<open>n\<close>-th value \<^verbatim>\<open>uuid.uuid1()\<close> hands
  out, and the counter of the values used so far is threaded through. A job handle
  equals a string when its id does, which is what \<^verbatim>\<open>id not in self.jobs[project]\<close>
  tests. The loop has no bound: not returning is the value \<open>None\<close>.
\<close>

definition id_in_use :: "'cb tracker \<Rightarrow> string \<Rightarrow> string \<Rightarrow> bool" where
  "id_in_use s proj ident =
     (map_of (jobs s) proj \<noteq> None \<and> list_ex (\<lambda>j. job_id j = ident) (project_jobs s proj))"

partial_function (option) task_id ::
  "(nat \<Rightarrow> string) \<Rightarrow> 'cb tracker \<Rightarrow> string \<Rightarrow> nat \<Rightarrow> (string \<times> nat) option"
where
  "task_id uuid1 s proj n =
     (if \<not> id_in_use s proj (proj @ ''__'' @ uuid1 n)
      then Some (proj @ ''__'' @ uuid1 n, Suc n)
      else task_id uuid1 s proj (Suc n))"

subsection \<open>Is a task of a type still running?\<close>

text \<open>The loop of \<^verbatim>\<open>task_ongoing\<close>: it returns at the first record that matches.\<close>

fun any_ongoing :: "string \<Rightarrow> status_record pydict \<Rightarrow> bool" where
  "any_ongoing taskType [] = False"
| "any_ongoing taskType ((key, r) # rest) =
     (if type r = taskType \<and> status r \<noteq> SUCCESS \<and> status r \<noteq> FAILURE then True
      else any_ongoing taskType rest)"

definition task_ongoing ::
  "celery \<Rightarrow> string \<Rightarrow> string \<Rightarrow> 'cb tracker \<Rightarrow> pyerror + bool \<times> 'cb tracker"
where
  "task_ongoing env proj taskType s =
     (case pollNow env s of
        Inl e \<Rightarrow> Inl e
      | Inr s1 \<Rightarrow>
          if map_of (messages s1) proj = None then Inr (False, s1)
          else Inr (any_ongoing taskType (project_messages s1 proj), s1))"

section \<open>Notions used in the proofs\<close>

text \<open>A task reported by a worker has a status record under its project.\<close>

definition tracked :: "'cb tracker \<Rightarrow> worker_task \<Rightarrow> bool" where
  "tracked s t =
     (map_of (messages s) (routing_key t) \<noteq> None \<and>
      map_of (project_messages s (routing_key t)) (tid t) \<noteq> None)"

text \<open>The two loops of \<^verbatim>\<open>pollNow\<close> over the report \<open>act\<close> of the active tasks.\<close>

definition sweep :: "celery \<Rightarrow> 'cb tracker \<Rightarrow> worker_task list pydict \<Rightarrow> 'cb tracker" where
  "sweep env s act = foldl (\<lambda>s1 (key, taskList). foldl (pollNow_task env) s1 taskList) s act"

text \<open>
  The report of the workers can be read by \<^verbatim>\<open>poll_worker_status\<close>: there are no
  statistics, or \<^verbatim>\<open>active()\<close> and \<^verbatim>\<open>scheduled()\<close> list every worker of the
  statistics.
\<close>

definition inspect_complete :: "celery \<Rightarrow> bool" where
  "inspect_complete env =
     (case stats env of
        None \<Rightarrow> True
      | Some st \<Rightarrow>
          st = [] \<or>
          (case active env of
             None \<Rightarrow> False
           | Some act \<Rightarrow>
               (case scheduled env of
                  None \<Rightarrow> False
                | Some sch \<Rightarrow>
                    list_all (\<lambda>key. map_of act key \<noteq> None \<and> map_of sch key \<noteq> None)
                      (map fst st))))"

text \<open>
  Stored metadata can be read by \<^verbatim>\<open>__poll_tasks\<close>: it is empty, or has the key
  \<^verbatim>\<open>status\<close> and, unless the status is failure, the key \<^verbatim>\<open>result\<close>.
\<close>

definition meta_readable :: "pyval pydict \<Rightarrow> bool" where
  "meta_readable msg =
     (msg = [] \<or>
      (case map_of msg ''status'' of
         None \<Rightarrow> False
       | Some st \<Rightarrow> st = FAILURE \<or> map_of msg ''result'' \<noteq> None))"

text \<open>No key occurs twice among the status records of a project.\<close>

definition keys_distinct :: "'cb tracker \<Rightarrow> bool" where
  "keys_distinct s = (\<forall>p. distinct (map fst (project_messages s p)))"

section \<open>Example inputs\<close>

text \<open>A queue with no worker connected and nothing stored in the result backend.\<close>

definition idle_env :: celery where
  "idle_env = \<lparr>stats = None, active = None, scheduled = None, get_task_meta = (\<lambda>k. []),
                ready = (\<lambda>k. False), current_time = ''t0''\<rparr>"

text \<open>
  One worker running one training task of project \<^verbatim>\<open>p\<close>, and the tracker after a
  first sweep over it.
\<close>

definition busy_env :: celery where
  "busy_env =
     \<lparr>stats = Some [(''celery@w1'', PyObj ''{}'')],
      active = Some [(''celery@w1'',
                      [\<lparr>tid = ''t1'', tname = ''model.train'', routing_key = ''p''\<rparr>])],
      scheduled = Some [(''celery@w1'', [])],
      get_task_meta = (\<lambda>k. []), ready = (\<lambda>k. False), current_time = ''t0''\<rparr>"

definition busy_tracker :: "unit tracker" where
  "busy_tracker =
     \<lparr>jobs = [(''p'', [\<lparr>job_id = ''t1'', children = None\<rparr>])],
      messages = [(''p'', [(''t1'', \<lparr>type = ''train'', submitted = ''t0'', status = PENDING,
                                    meta = Message ''job at worker''\<rparr>)])],
      on_complete = [], forgotten = [], broadcast = []\<rparr>"

text \<open>
  A source of unique values for \<^verbatim>\<open>uuid1\<close>, and a tracker whose project \<^verbatim>\<open>p\<close> already
  has a job under the first candidate.
\<close>

definition letters :: "nat \<Rightarrow> string" where
  "letters n = replicate n (CHR ''a'')"

definition taken_tracker :: "unit tracker" where
  "taken_tracker = init_tracker\<lparr>jobs := [(''p'', [\<lparr>job_id = ''p__'', children = None\<rparr>])]\<rparr>"

text \<open>
  A result backend that reports a failure with a detail for \<^verbatim>\<open>t1\<close>, a failure without
  detail for \<^verbatim>\<open>t2\<close>, a success for \<^verbatim>\<open>t3\<close> and nothing for any other task; a tracker
  with four tasks of project \<^verbatim>\<open>p\<close>; and the status map of that project.
\<close>

definition failing_env :: celery where
  "failing_env =
     \<lparr>stats = None, active = None, scheduled = None,
      get_task_meta = (\<lambda>k.
        if k = ''t1'' then [(''status'', FAILURE), (''meta'', PyObj ''<script>'')]
        else if k = ''t2'' then [(''status'', FAILURE), (''result'', PyObj ''None'')]
        else if k = ''t3'' then [(''status'', SUCCESS), (''result'', PyObj ''42'')]
        else []),
      ready = (\<lambda>k. k \<noteq> ''t4''), current_time = ''t9''\<rparr>"

definition polled_tracker :: "unit tracker" where
  "polled_tracker =
     init_tracker
       \<lparr>messages :=
          [(''p'', [(''t1'', \<lparr>type = ''train'', submitted = ''t0'', status = PENDING,
                              meta = Message ''job at worker''\<rparr>),
                    (''t2'', \<lparr>type = ''train'', submitted = ''t0'', status = PENDING,
                              meta = Message ''job at worker''\<rparr>),
                    (''t3'', \<lparr>type = ''inference'', submitted = ''t0'', status = PENDING,
                              meta = Message ''job at worker''\<rparr>),
                    (''t4'', \<lparr>type = ''inference'', submitted = ''t0'', status = PENDING,
                              meta = Message ''sending job to worker''\<rparr>)])]\<rparr>"

definition polled_status :: "status_record pydict" where
  "polled_status =
     [(''t1'', \<lparr>type = ''train'', submitted = ''t0'', status = FAILURE,
                 meta = Message ''&lt;script&gt;''\<rparr>),
      (''t2'', \<lparr>type = ''train'', submitted = ''t0'', status = FAILURE,
                 meta = Message ''an unknown error occurred''\<rparr>),
      (''t3'', \<lparr>type = ''inference'', submitted = ''t0'', status = SUCCESS,
                 meta = Payload (PyObj ''42'')\<rparr>)]"

text \<open>
  A tracker whose two inference tasks of project \<^verbatim>\<open>p\<close> have ended and whose training
  task has not.
\<close>

definition done_tracker :: "unit tracker" where
  "done_tracker =
     init_tracker
       \<lparr>messages :=
          [(''p'', [(''t1'', \<lparr>type = ''inference'', submitted = ''t0'', status = SUCCESS,
                              meta = Message ''job at worker''\<rparr>),
                    (''t2'', \<lparr>type = ''inference'', submitted = ''t0'', status = FAILURE,
                              meta = Message ''job at worker''\<rparr>),
                    (''t3'', \<lparr>type = ''train'', submitted = ''t0'', status = PENDING,
                              meta = Message ''job at worker''\<rparr>)])]\<rparr>"

section \<open>Properties of Reception\<close>

lemma html_escape_script: "html_escape ''<script>'' = ''&lt;script&gt;''"
  by (simp add: html_escape_def replace_char_def)

text \<open>
  C1. Route \<^verbatim>\<open>/<project>/enroll\<close>: a login check that reports "not logged in"
  gives a redirect to \<^verbatim>\<open>/\<close>; logged in and the service returning false gives
  HTTP 401; the service returning true gives a redirect to
  \<^verbatim>\<open>/<project>/interface\<close>; every other failure on the way (no login check
  installed, the login check raising, no \<^verbatim>\<open>username\<close> cookie, the service raising)
  gives HTTP 400.
\<close>

theorem enroll_in_project_responses:
  "(call_login_check r None = Returns False \<longrightarrow>
      enroll_in_project r mw req proj = Redirect ''/'') \<and>
   (call_login_check r None = Returns True \<and> cookie_username req = Some c \<and>
    enroll mw proj (html_escape c) (map_option html_escape (query_t req)) = Returns False \<longrightarrow>
      enroll_in_project r mw req proj = HttpError 401) \<and>
   (call_login_check r None = Returns True \<and> cookie_username req = Some c \<and>
    enroll mw proj (html_escape c) (map_option html_escape (query_t req)) = Returns True \<longrightarrow>
      enroll_in_project r mw req proj = Redirect (''/'' @ proj @ ''/interface'')) \<and>
   (login_check r = None \<longrightarrow> enroll_in_project r mw req proj = HttpError 400) \<and>
   (call_login_check r None = Raises (Exception e) \<longrightarrow>
      enroll_in_project r mw req proj = HttpError 400) \<and>
   (call_login_check r None = Returns True \<and> cookie_username req = None \<longrightarrow>
      enroll_in_project r mw req proj = HttpError 400) \<and>
   (call_login_check r None = Returns True \<and> cookie_username req = Some c \<and>
    enroll mw proj (html_escape c) (map_option html_escape (query_t req)) = Raises (Exception e) \<longrightarrow>
      enroll_in_project r mw req proj = HttpError 400)"
  by (simp add: enroll_in_project_def escaped_cookie_def call_login_check_def)

theorem enroll_in_project_responses_witness:
  "enroll_in_project \<lparr>demoMode = False, login_check = Some (\<lambda>a. Returns False)\<rparr>
     \<lparr>get_project_info = (\<lambda>u b. Returns ()), enroll = (\<lambda>p u t. Returns True)\<rparr>
     \<lparr>cookie_username = Some ''ann'', query_t = None\<rparr> ''birds'' = Redirect ''/'' \<and>
   enroll_in_project \<lparr>demoMode = False, login_check = Some (\<lambda>a. Returns True)\<rparr>
     \<lparr>get_project_info = (\<lambda>u b. Returns ()), enroll = (\<lambda>p u t. Returns False)\<rparr>
     \<lparr>cookie_username = Some ''ann'', query_t = Some ''tok''\<rparr> ''birds'' = HttpError 401 \<and>
   enroll_in_project \<lparr>demoMode = False, login_check = Some (\<lambda>a. Returns True)\<rparr>
     \<lparr>get_project_info = (\<lambda>u b. Returns ()), enroll = (\<lambda>p u t. Returns True)\<rparr>
     \<lparr>cookie_username = Some ''ann'', query_t = Some ''tok''\<rparr> ''birds''
       = Redirect ''/birds/interface'' \<and>
   enroll_in_project (init_reception True)
     \<lparr>get_project_info = (\<lambda>u b. Returns ()), enroll = (\<lambda>p u t. Returns True)\<rparr>
     \<lparr>cookie_username = Some ''ann'', query_t = None\<rparr> ''birds'' = HttpError 400 \<and>
   enroll_in_project
     \<lparr>demoMode = False, login_check = Some (\<lambda>a. Raises (Exception KeyError))\<rparr>
     \<lparr>get_project_info = (\<lambda>u b. Returns ()), enroll = (\<lambda>p u t. Returns True)\<rparr>
     \<lparr>cookie_username = Some ''ann'', query_t = None\<rparr> ''birds'' = HttpError 400 \<and>
   enroll_in_project \<lparr>demoMode = False, login_check = Some (\<lambda>a. Returns True)\<rparr>
     \<lparr>get_project_info = (\<lambda>u b. Returns ()), enroll = (\<lambda>p u t. Returns True)\<rparr>
     \<lparr>cookie_username = None, query_t = None\<rparr> ''birds'' = HttpError 400 \<and>
   enroll_in_project \<lparr>demoMode = False, login_check = Some (\<lambda>a. Returns True)\<rparr>
     \<lparr>get_project_info = (\<lambda>u b. Returns ()),
      enroll = (\<lambda>p u t. Raises (Exception KeyError))\<rparr>
     \<lparr>cookie_username = Some ''ann'', query_t = None\<rparr> ''birds'' = HttpError 400"
  using
    enroll_in_project_responses
      [where r = "\<lparr>demoMode = False, login_check = Some (\<lambda>a. Returns False)\<rparr>"
         and mw = "\<lparr>get_project_info = (\<lambda>u b. Returns ()), enroll = (\<lambda>p u t. Returns True)\<rparr>"
         and req = "\<lparr>cookie_username = Some ''ann'', query_t = None\<rparr>"
         and proj = "''birds''" and c = "''ann''" and e = KeyError]
    enroll_in_project_responses
      [where r = "\<lparr>demoMode = False, login_check = Some (\<lambda>a. Returns True)\<rparr>"
         and mw = "\<lparr>get_project_info = (\<lambda>u b. Returns ()), enroll = (\<lambda>p u t. Returns False)\<rparr>"
         and req = "\<lparr>cookie_username = Some ''ann'', query_t = Some ''tok''\<rparr>"
         and proj = "''birds''" and c = "''ann''" and e = KeyError]
    enroll_in_project_responses
      [where r = "\<lparr>demoMode = False, login_check = Some (\<lambda>a. Returns True)\<rparr>"
         and mw = "\<lparr>get_project_info = (\<lambda>u b. Returns ()), enroll = (\<lambda>p u t. Returns True)\<rparr>"
         and req = "\<lparr>cookie_username = Some ''ann'', query_t = Some ''tok''\<rparr>"
         and proj = "''birds''" and c = "''ann''" and e = KeyError]
    enroll_in_project_responses
      [where r = "init_reception True"
         and mw = "\<lparr>get_project_info = (\<lambda>u b. Returns ()), enroll = (\<lambda>p u t. Returns True)\<rparr>"
         and req = "\<lparr>cookie_username = Some ''ann'', query_t = None\<rparr>"
         and proj = "''birds''" and c = "''ann''" and e = KeyError]
    enroll_in_project_responses
      [where r = "\<lparr>demoMode = False, login_check = Some (\<lambda>a. Raises (Exception KeyError))\<rparr>"
         and mw = "\<lparr>get_project_info = (\<lambda>u b. Returns ()), enroll = (\<lambda>p u t. Returns True)\<rparr>"
         and req = "\<lparr>cookie_username = Some ''ann'', query_t = None\<rparr>"
         and proj = "''birds''" and c = "''ann''" and e = KeyError]
    enroll_in_project_responses
      [where r = "\<lparr>demoMode = False, login_check = Some (\<lambda>a. Returns True)\<rparr>"
         and mw = "\<lparr>get_project_info = (\<lambda>u b. Returns ()), enroll = (\<lambda>p u t. Returns True)\<rparr>"
         and req = "\<lparr>cookie_username = None, query_t = None\<rparr>"
         and proj = "''birds''" and c = "''ann''" and e = KeyError]
    enroll_in_project_responses
      [where r = "\<lparr>demoMode = False, login_check = Some (\<lambda>a. Returns True)\<rparr>"
         and mw = "\<lparr>get_project_info = (\<lambda>u b. Returns ()), enroll = (\<lambda>p u t. Raises (Exception KeyError))\<rparr>"
         and req = "\<lparr>cookie_username = Some ''ann'', query_t = None\<rparr>"
         and proj = "''birds''" and c = "''ann''" and e = KeyError]
  by (simp add: call_login_check_def init_reception_def html_escape_def replace_char_def)

text \<open>
  C9. Route \<^verbatim>\<open>/\<close>: in demo mode the display name is exactly "Demo mode", whatever
  the cookie; with demo mode off, the name is empty when the login check reports "not
  logged in", is not installed, or raises; whatever fails while the name is determined,
  the answer is the page with an empty name, never an error.
\<close>

theorem projects_display_name:
  "(demoMode r \<longrightarrow> projects r req = Page ''Demo mode'') \<and>
   (\<not> demoMode r \<and> call_login_check r None = Returns False \<longrightarrow> projects r req = Page []) \<and>
   (\<not> demoMode r \<and> login_check r = None \<longrightarrow> projects r req = Page []) \<and>
   (\<not> demoMode r \<and> call_login_check r None = Raises e \<longrightarrow> projects r req = Page []) \<and>
   (projects_username r req = Raises e \<longrightarrow> projects r req = Page []) \<and>
   (\<not> demoMode r \<and> call_login_check r None = Returns True \<and> cookie_username req = Some c \<longrightarrow>
      projects r req = Page (html_escape c)) \<and>
   (\<exists>u. projects r req = Page u)"
  by (simp add: projects_def projects_username_def escaped_cookie_def call_login_check_def)

theorem projects_display_name_witness:
  "projects \<lparr>demoMode = True, login_check = Some (\<lambda>a. Returns False)\<rparr>
     \<lparr>cookie_username = Some ''ann'', query_t = None\<rparr> = Page ''Demo mode'' \<and>
   projects \<lparr>demoMode = False, login_check = Some (\<lambda>a. Returns False)\<rparr>
     \<lparr>cookie_username = Some ''ann'', query_t = None\<rparr> = Page [] \<and>
   projects (init_reception False)
     \<lparr>cookie_username = Some ''ann'', query_t = None\<rparr> = Page [] \<and>
   projects \<lparr>demoMode = False, login_check = Some (\<lambda>a. Raises (Exception KeyError))\<rparr>
     \<lparr>cookie_username = Some ''ann'', query_t = None\<rparr> = Page [] \<and>
   projects \<lparr>demoMode = False, login_check = Some (\<lambda>a. Returns True)\<rparr>
     \<lparr>cookie_username = None, query_t = None\<rparr> = Page [] \<and>
   projects \<lparr>demoMode = False, login_check = Some (\<lambda>a. Returns True)\<rparr>
     \<lparr>cookie_username = Some ''<b>'', query_t = None\<rparr> = Page ''&lt;b&gt;''"
  using
    projects_display_name
      [where r = "\<lparr>demoMode = True, login_check = Some (\<lambda>a. Returns False)\<rparr>"
         and req = "\<lparr>cookie_username = Some ''ann'', query_t = None\<rparr>"
         and c = "''ann''" and e = "Exception KeyError"]
    projects_display_name
      [where r = "\<lparr>demoMode = False, login_check = Some (\<lambda>a. Returns False)\<rparr>"
         and req = "\<lparr>cookie_username = Some ''ann'', query_t = None\<rparr>"
         and c = "''ann''" and e = "Exception KeyError"]
    projects_display_name
      [where r = "init_reception False"
         and req = "\<lparr>cookie_username = Some ''ann'', query_t = None\<rparr>"
         and c = "''ann''" and e = "Exception KeyError"]
    projects_display_name
      [where r = "\<lparr>demoMode = False, login_check = Some (\<lambda>a. Raises (Exception KeyError))\<rparr>"
         and req = "\<lparr>cookie_username = Some ''ann'', query_t = None\<rparr>"
         and c = "''ann''" and e = "Exception KeyError"]
    projects_display_name
      [where r = "\<lparr>demoMode = False, login_check = Some (\<lambda>a. Returns True)\<rparr>"
         and req = "\<lparr>cookie_username = None, query_t = None\<rparr>"
         and c = "''ann''" and e = "Exception AttributeError"]
    projects_display_name
      [where r = "\<lparr>demoMode = False, login_check = Some (\<lambda>a. Returns True)\<rparr>"
         and req = "\<lparr>cookie_username = Some ''<b>'', query_t = None\<rparr>"
         and c = "''<b>''" and e = "Exception KeyError"]
  by (simp add: call_login_check_def init_reception_def projects_username_def
        escaped_cookie_def html_escape_def replace_char_def)

text \<open>
  C3. In demo mode \<^verbatim>\<open>addLoginCheckFun\<close> installs nothing, so \<^verbatim>\<open>login_check\<close> stays
  \<^verbatim>\<open>None\<close>. A login check made through \<^verbatim>\<open>loginCheck\<close> then calls \<^verbatim>\<open>None\<close>: it
  raises \<^verbatim>\<open>TypeError\<close> instead of evaluating to true, and so does the route
  \<^verbatim>\<open>/getProjects\<close>, whose superuser check stands outside its \<^verbatim>\<open>try\<close>.
\<close>

theorem demo_mode_loginCheck_raises:
  "login_check (addLoginCheckFun f (init_reception True)) = None \<and>
   loginCheck (addLoginCheckFun f (init_reception True)) args = Raises (Exception TypeError) \<and>
   get_projects (addLoginCheckFun f (init_reception True)) mw req = Raises (Exception TypeError)"
  by (simp add: addLoginCheckFun_def init_reception_def loginCheck_def call_login_check_def
        get_projects_def)

section \<open>Properties of the tracker\<close>

subsection \<open>The stores\<close>

lemma update_absent: "map_of al k = None \<Longrightarrow> AList.update k v al = al @ [(k, v)]"
  by (induction al) (auto split: if_splits)

lemma update_present: "map_of al k = Some v \<Longrightarrow> AList.update k v al = al"
  by (induction al) (auto split: if_splits)

lemma messages_ensure_messages_None [simp]:
  "(map_of (messages (ensure_messages p s)) q = None) = (q \<noteq> p \<and> map_of (messages s) q = None)"
  by (auto simp: ensure_messages_def update_conv')

lemma project_messages_ensure_messages [simp]:
  "project_messages (ensure_messages p s) q = project_messages s q"
  by (auto simp: ensure_messages_def project_messages_def update_conv')

lemma messages_set_message_None [simp]:
  "(map_of (messages (set_message p k r s)) q = None) = (q \<noteq> p \<and> map_of (messages s) q = None)"
  by (auto simp: set_message_def update_conv')

lemma project_messages_set_message [simp]:
  "project_messages (set_message p k r s) q =
     (if q = p then AList.update k r (project_messages s p) else project_messages s q)"
  by (auto simp: set_message_def project_messages_def update_conv')

lemma messages_append_job [simp]: "messages (append_job p j s) = messages s"
  by (simp add: append_job_def)

lemma messages_ensure_jobs [simp]: "messages (ensure_jobs p s) = messages s"
  by (simp add: ensure_jobs_def)

lemma messages_forget [simp]: "messages (forget k s) = messages s"
  by (simp add: forget_def)

lemma project_messages_cong: "messages s = messages t \<Longrightarrow> project_messages s = project_messages t"
  by (auto simp: project_messages_def fun_eq_iff)

lemma project_messages_append_job [simp]: "project_messages (append_job p j s) = project_messages s"
  by (rule project_messages_cong) simp

lemma project_messages_ensure_jobs [simp]: "project_messages (ensure_jobs p s) = project_messages s"
  by (rule project_messages_cong) simp

lemma project_messages_forget [simp]: "project_messages (forget k s) = project_messages s"
  by (rule project_messages_cong) simp

lemma project_messages_broadcast [simp]: "project_messages (s\<lparr>broadcast := b\<rparr>) = project_messages s"
  by (rule project_messages_cong) simp

lemma project_messages_on_complete [simp]: "project_messages (s\<lparr>on_complete := b\<rparr>) = project_messages s"
  by (rule project_messages_cong) simp

lemma project_messages_fold_set_message:
  "project_messages (foldl (\<lambda>s' c. set_message p c r s') s cs) q =
     (if q = p then foldl (\<lambda>m c. AList.update c r m) (project_messages s p) cs
      else project_messages s q)"
  by (induction cs arbitrary: s) auto

lemma map_of_fold_update:
  "map_of (foldl (\<lambda>m c. AList.update c r m) m cs) k =
     (if k \<in> set cs then Some r else map_of m k)"
  by (induction cs arbitrary: m) (auto simp: update_conv')

lemma keys_fold_update:
  "fst ` set (foldl (\<lambda>m c. AList.update c r m) m cs) = fst ` set m \<union> set cs"
  by (induction cs arbitrary: m) (auto simp: dom_update[simplified dom_map_of_conv_image_fst])

subsection \<open>Registering jobs\<close>

text \<open>
  C6. \<^verbatim>\<open>register_job\<close> with a job that is not a group creates exactly one status
  record, under the job's own id, when the project has none under that id, and leaves
  the project's records as they are when it has one: a second registration under the
  same id overwrites nothing. The records of other projects stay as they are.
\<close>

theorem register_job_single:
  "children j = None \<longrightarrow>
     (map_of (project_messages s proj) (job_id j) = None \<longrightarrow>
        project_messages (register_job env proj j taskType cb s) proj =
          project_messages s proj @
            [(job_id j, \<lparr>type = taskType, submitted = current_time env, status = PENDING,
                         meta = Message ''sending job to worker''\<rparr>)]) \<and>
     (map_of (project_messages s proj) (job_id j) = Some r \<longrightarrow>
        project_messages (register_job env proj j taskType cb s) proj = project_messages s proj) \<and>
     (q \<noteq> proj \<longrightarrow>
        project_messages (register_job env proj j taskType cb s) q = project_messages s q) \<and>
     (children jb = None \<and> job_id jb = job_id j \<longrightarrow>
        project_messages (register_job envb proj jb taskTypeb cbb
                           (register_job env proj j taskType cb s)) proj =
        project_messages (register_job env proj j taskType cb s) proj)"
  by (auto simp: register_job_def Let_def new_record_def update_absent update_conv')


theorem register_job_single_witness:
  "project_messages
     (register_job idle_env ''p'' \<lparr>job_id = ''a1'', children = None\<rparr> ''train'' (None :: unit option)
        init_tracker) ''p''
     = [(''a1'', \<lparr>type = ''train'', submitted = ''t0'', status = PENDING,
                  meta = Message ''sending job to worker''\<rparr>)] \<and>
   project_messages
     (register_job idle_env ''p'' \<lparr>job_id = ''a1'', children = None\<rparr> ''inference'' None
        (register_job idle_env ''p'' \<lparr>job_id = ''a1'', children = None\<rparr> ''train''
           (None :: unit option) init_tracker)) ''p''
     = [(''a1'', \<lparr>type = ''train'', submitted = ''t0'', status = PENDING,
                  meta = Message ''sending job to worker''\<rparr>)]"
  using
    register_job_single
      [where j = "\<lparr>job_id = ''a1'', children = None\<rparr>" and s = "init_tracker :: unit tracker"
         and proj = "''p''" and env = idle_env and taskType = "''train''" and cb = None
         and q = "''q''" and jb = "\<lparr>job_id = ''a1'', children = None\<rparr>" and envb = idle_env
         and taskTypeb = "''inference''" and cbb = None]
  by (simp add: init_tracker_def project_messages_def idle_env_def)

text \<open>
  C5. \<^verbatim>\<open>register_job\<close> with a group: afterwards every child task id has a status
  record with status pending, the given type and the message "sending job to worker";
  no other id of the project changes, and the ids of the project are the old ones and
  the children. For two distinct child ids not tracked before, exactly two records are
  added.
\<close>

theorem register_job_group:
  "children j = Some cs \<longrightarrow>
     (\<forall>c \<in> set cs.
        map_of (project_messages (register_job env proj j taskType cb s) proj) c =
          Some \<lparr>type = taskType, submitted = current_time env, status = PENDING,
                meta = Message ''sending job to worker''\<rparr>) \<and>
     (\<forall>k. k \<notin> set cs \<longrightarrow>
        map_of (project_messages (register_job env proj j taskType cb s) proj) k =
          map_of (project_messages s proj) k) \<and>
     fst ` set (project_messages (register_job env proj j taskType cb s) proj) =
       fst ` set (project_messages s proj) \<union> set cs \<and>
     (cs = [child_a, child_b] \<and> child_a \<noteq> child_b \<and> map_of (project_messages s proj) child_a = None \<and>
      map_of (project_messages s proj) child_b = None \<longrightarrow>
        project_messages (register_job env proj j taskType cb s) proj =
          project_messages s proj @
            [(child_a, \<lparr>type = taskType, submitted = current_time env, status = PENDING,
                   meta = Message ''sending job to worker''\<rparr>),
             (child_b, \<lparr>type = taskType, submitted = current_time env, status = PENDING,
                   meta = Message ''sending job to worker''\<rparr>)])"
proof (intro impI conjI)
  assume cs: "children j = Some cs"
  let ?r = "new_record env taskType"
  have pm: "project_messages (register_job env proj j taskType cb s) proj =
              foldl (\<lambda>m c. AList.update c ?r m) (project_messages s proj) cs"
    using cs by (simp add: register_job_def Let_def project_messages_fold_set_message)
  show "\<forall>c \<in> set cs.
        map_of (project_messages (register_job env proj j taskType cb s) proj) c =
          Some \<lparr>type = taskType, submitted = current_time env, status = PENDING,
                meta = Message ''sending job to worker''\<rparr>"
    by (simp add: pm map_of_fold_update new_record_def)
  show "\<forall>k. k \<notin> set cs \<longrightarrow>
        map_of (project_messages (register_job env proj j taskType cb s) proj) k =
          map_of (project_messages s proj) k"
    by (simp add: pm map_of_fold_update)
  show "fst ` set (project_messages (register_job env proj j taskType cb s) proj) =
       fst ` set (project_messages s proj) \<union> set cs"
    by (simp add: pm keys_fold_update)
  assume two: "cs = [child_a, child_b] \<and> child_a \<noteq> child_b \<and> map_of (project_messages s proj) child_a = None \<and>
      map_of (project_messages s proj) child_b = None"
  then show "project_messages (register_job env proj j taskType cb s) proj =
          project_messages s proj @
            [(child_a, \<lparr>type = taskType, submitted = current_time env, status = PENDING,
                   meta = Message ''sending job to worker''\<rparr>),
             (child_b, \<lparr>type = taskType, submitted = current_time env, status = PENDING,
                   meta = Message ''sending job to worker''\<rparr>)]"
  proof -
    from two have a: "map_of (project_messages s proj) child_a = None"
      and b: "map_of (project_messages s proj @ [(child_a, ?r)]) child_b = None"
      by auto
    have "foldl (\<lambda>m c. AList.update c ?r m) (project_messages s proj) [child_a, child_b] =
            AList.update child_b ?r (AList.update child_a ?r (project_messages s proj))"
      by simp
    also have "\<dots> = AList.update child_b ?r (project_messages s proj @ [(child_a, ?r)])"
      by (simp only: update_absent [OF a])
    also have "\<dots> = (project_messages s proj @ [(child_a, ?r)]) @ [(child_b, ?r)]"
      by (rule update_absent [OF b])
    finally show ?thesis
      using two by (simp add: pm new_record_def)
  qed
qed

theorem register_job_group_witness:
  "project_messages
     (register_job idle_env ''p'' \<lparr>job_id = ''g'', children = Some [''c1'', ''c2'']\<rparr> ''train''
        (None :: unit option) init_tracker) ''p''
     = [(''c1'', \<lparr>type = ''train'', submitted = ''t0'', status = PENDING,
                  meta = Message ''sending job to worker''\<rparr>),
        (''c2'', \<lparr>type = ''train'', submitted = ''t0'', status = PENDING,
                  meta = Message ''sending job to worker''\<rparr>)]"
  using
    register_job_group
      [where j = "\<lparr>job_id = ''g'', children = Some [''c1'', ''c2'']\<rparr>" and cs = "[''c1'', ''c2'']"
         and s = "init_tracker :: unit tracker" and proj = "''p''" and env = idle_env
         and taskType = "''train''" and cb = None and child_a = "''c1''" and child_b = "''c2''"]
  by (simp add: init_tracker_def project_messages_def idle_env_def)

subsection \<open>The sweep over the workers\<close>

lemma ensure_messages_present: "map_of (messages s) p \<noteq> None \<Longrightarrow> ensure_messages p s = s"
  by (auto simp: ensure_messages_def)

lemma pollNow_task_tracked: "tracked s t \<Longrightarrow> pollNow_task env s t = s"
  by (auto simp: tracked_def pollNow_task_def Let_def ensure_messages_present)

lemma tracked_pollNow_task: "tracked (pollNow_task env s t) t"
  by (simp add: tracked_def pollNow_task_def Let_def update_conv' del: not_None_eq)

lemma tracked_mono: "tracked s u \<Longrightarrow> tracked (pollNow_task env s t) u"
  by (auto simp add: tracked_def pollNow_task_def Let_def update_conv' simp del: not_None_eq)

lemma tracked_foldl_mono: "tracked s u \<Longrightarrow> tracked (foldl (pollNow_task env) s ts) u"
  by (induction ts arbitrary: s) (auto intro: tracked_mono)

lemma tracked_foldl: "u \<in> set ts \<Longrightarrow> tracked (foldl (pollNow_task env) s ts) u"
  by (induction ts arbitrary: s) (auto intro: tracked_foldl_mono tracked_pollNow_task)

lemma foldl_tracked_id: "\<forall>u \<in> set ts. tracked s u \<Longrightarrow> foldl (pollNow_task env) s ts = s"
  by (induction ts) (auto simp: pollNow_task_tracked)

lemma sweep_flat: "sweep env s act = foldl (pollNow_task env) s (concat (map snd act))"
  unfolding sweep_def by (induction act arbitrary: s) (auto)

lemma sweep_idem:
  "sweep env2 (sweep env s act) act = sweep env s act"
  unfolding sweep_flat by (rule foldl_tracked_id) (simp add: tracked_foldl del: set_concat)

lemma pollNow_sweep:
  "pollNow env s =
     (case stats env of None \<Rightarrow> Inr s
      | Some st \<Rightarrow> if st = [] then Inr s
          else (case active env of None \<Rightarrow> Inl AttributeError | Some act \<Rightarrow> Inr (sweep env s act)))"
  by (simp add: pollNow_def sweep_def split: option.splits)

text \<open>
  C10. A second \<^verbatim>\<open>pollNow\<close> over the same report of the workers (the clock may have
  moved on) changes nothing: it adds no status record and appends no job handle, since
  every reported task is tracked after the first run.
\<close>

theorem pollNow_idempotent:
  "pollNow env s = Inr s1 \<and> stats envb = stats env \<and> active envb = active env \<longrightarrow>
     pollNow envb s1 = Inr s1"
  by (auto simp: pollNow_sweep sweep_idem split: option.splits if_splits)

lemma any_ongoing_iff:
  "any_ongoing taskType m =
     (\<exists>(k, r) \<in> set m. type r = taskType \<and> status r \<noteq> SUCCESS \<and> status r \<noteq> FAILURE)"
  by (induction m) auto

lemma project_messages_absent: "map_of (messages s) p = None \<Longrightarrow> project_messages s p = []"
  by (simp add: project_messages_def)

text \<open>
  C4. \<^verbatim>\<open>task_ongoing\<close> first runs \<^verbatim>\<open>pollNow\<close>; on the state the sweep leaves it
  returns true exactly when some status record of the project has the given type and a
  status that is neither success nor failure, hence false when the project has no
  record. What \<^verbatim>\<open>pollNow\<close> raises, \<^verbatim>\<open>task_ongoing\<close> raises.
\<close>

theorem task_ongoing_iff:
  "(pollNow env s = Inr s1 \<longrightarrow>
      task_ongoing env proj taskType s =
        Inr ((\<exists>(k, r) \<in> set (project_messages s1 proj).
                type r = taskType \<and> status r \<noteq> SUCCESS \<and> status r \<noteq> FAILURE), s1)) \<and>
   (pollNow env s = Inr s1 \<and> project_messages s1 proj = [] \<longrightarrow>
      task_ongoing env proj taskType s = Inr (False, s1)) \<and>
   (pollNow env s = Inl e \<longrightarrow> task_ongoing env proj taskType s = Inl e)"
  by (auto simp: task_ongoing_def any_ongoing_iff project_messages_absent)


lemma pollNow_busy: "pollNow busy_env init_tracker = Inr busy_tracker"
  by (simp add: pollNow_def busy_env_def init_tracker_def pollNow_task_def Let_def
      ensure_messages_def ensure_jobs_def set_message_def append_job_def project_messages_def
      project_jobs_def worker_record_def type_of_name_def busy_tracker_def)

theorem pollNow_idempotent_witness:
  "pollNow busy_env init_tracker = Inr busy_tracker \<and>
   pollNow (busy_env\<lparr>current_time := ''t1''\<rparr>) busy_tracker = Inr busy_tracker"
  using pollNow_idempotent [where env = busy_env and s = init_tracker and ?s1.0 = busy_tracker
      and envb = "busy_env\<lparr>current_time := ''t1''\<rparr>"] pollNow_busy
  by simp

lemma pollNow_idle: "pollNow idle_env s = Inr s"
  by (simp add: pollNow_def idle_env_def)

theorem task_ongoing_iff_witness:
  "task_ongoing busy_env ''p'' ''train'' init_tracker = Inr (True, busy_tracker) \<and>
   task_ongoing busy_env ''p'' ''inference'' init_tracker = Inr (False, busy_tracker) \<and>
   task_ongoing busy_env ''q'' ''train'' init_tracker = Inr (False, busy_tracker) \<and>
   task_ongoing idle_env ''p'' ''inference'' done_tracker = Inr (False, done_tracker) \<and>
   task_ongoing idle_env ''p'' ''train'' done_tracker = Inr (True, done_tracker) \<and>
   task_ongoing (busy_env\<lparr>active := None\<rparr>) ''p'' ''train'' (init_tracker :: unit tracker)
     = Inl AttributeError"
  using
    task_ongoing_iff [where env = busy_env and s = init_tracker and ?s1.0 = busy_tracker
      and proj = "''p''" and taskType = "''train''" and e = AttributeError]
    task_ongoing_iff [where env = busy_env and s = init_tracker and ?s1.0 = busy_tracker
      and proj = "''p''" and taskType = "''inference''" and e = AttributeError]
    task_ongoing_iff [where env = busy_env and s = init_tracker and ?s1.0 = busy_tracker
      and proj = "''q''" and taskType = "''train''" and e = AttributeError]
    task_ongoing_iff [where env = idle_env and s = done_tracker and ?s1.0 = done_tracker
      and proj = "''p''" and taskType = "''inference''" and e = AttributeError]
    task_ongoing_iff [where env = idle_env and s = done_tracker and ?s1.0 = done_tracker
      and proj = "''p''" and taskType = "''train''" and e = AttributeError]
    task_ongoing_iff [where env = "busy_env\<lparr>active := None\<rparr>"
      and s = "init_tracker :: unit tracker" and ?s1.0 = busy_tracker
      and proj = "''p''" and taskType = "''train''" and e = AttributeError]
    pollNow_busy pollNow_idle [of done_tracker]
  by (simp add: busy_tracker_def done_tracker_def init_tracker_def project_messages_def
        PENDING_def SUCCESS_def FAILURE_def pollNow_def busy_env_def)

subsection \<open>Fresh task identifiers\<close>

lemma id_in_use_iff: "id_in_use s proj ident = (ident \<in> job_id ` set (project_jobs s proj))"
  by (cases "map_of (jobs s) proj") (auto simp: id_in_use_def list_ex_iff project_jobs_def)

lemma task_id_finds:
  "\<not> id_in_use s proj (proj @ ''__'' @ uuid1 (n + k)) \<Longrightarrow>
     \<exists>m. n \<le> m \<and> m \<le> n + k \<and>
         task_id uuid1 s proj n = Some (proj @ ''__'' @ uuid1 m, Suc m) \<and>
         \<not> id_in_use s proj (proj @ ''__'' @ uuid1 m) \<and>
         (\<forall>i. n \<le> i \<and> i < m \<longrightarrow> id_in_use s proj (proj @ ''__'' @ uuid1 i))"
proof (induction k arbitrary: n)
  case 0
  then have "task_id uuid1 s proj n = Some (proj @ ''__'' @ uuid1 n, Suc n)"
    by (subst task_id.simps) simp
  with 0 show ?case by auto
next
  case (Suc k)
  show ?case
  proof (cases "id_in_use s proj (proj @ ''__'' @ uuid1 n)")
    case False
    then have "task_id uuid1 s proj n = Some (proj @ ''__'' @ uuid1 n, Suc n)"
      by (subst task_id.simps) simp
    with False show ?thesis by auto
  next
    case True
    then have step: "task_id uuid1 s proj n = task_id uuid1 s proj (Suc n)"
      by (subst task_id.simps) simp
    from Suc.prems have "\<not> id_in_use s proj (proj @ ''__'' @ uuid1 (Suc n + k))" by simp
    from Suc.IH [OF this] obtain m where m: "Suc n \<le> m" "m \<le> Suc n + k"
      "task_id uuid1 s proj (Suc n) = Some (proj @ ''__'' @ uuid1 m, Suc m)"
      "\<not> id_in_use s proj (proj @ ''__'' @ uuid1 m)"
      "\<forall>i. Suc n \<le> i \<and> i < m \<longrightarrow> id_in_use s proj (proj @ ''__'' @ uuid1 i)"
      by blast
    have "\<forall>i. n \<le> i \<and> i < m \<longrightarrow> id_in_use s proj (proj @ ''__'' @ uuid1 i)"
    proof (intro allI impI)
      fix i assume "n \<le> i \<and> i < m"
      then have "i = n \<or> (Suc n \<le> i \<and> i < m)" by arith
      then show "id_in_use s proj (proj @ ''__'' @ uuid1 i)" using True m(5) by blast
    qed
    with m step show ?thesis
      by (intro exI [of _ m]) simp
  qed
qed

lemma fresh_exists:
  fixes uuid1 :: "nat \<Rightarrow> string"
  assumes "inj uuid1"
  shows "\<exists>k. \<not> id_in_use s proj (proj @ ''__'' @ uuid1 (n + k))"
proof (rule ccontr)
  assume "\<not> ?thesis"
  then have sub: "range (\<lambda>k. proj @ ''__'' @ uuid1 (n + k)) \<subseteq> job_id ` set (project_jobs s proj)"
    by (auto simp: id_in_use_iff)
  have "inj (\<lambda>k. proj @ ''__'' @ uuid1 (n + k))"
  proof (rule injI)
    fix x y
    assume "proj @ ''__'' @ uuid1 (n + x) = proj @ ''__'' @ uuid1 (n + y)"
    then have "uuid1 (n + x) = uuid1 (n + y)" by simp
    with assms have "n + x = n + y" by (rule injD)
    then show "x = y" by simp
  qed
  then have "infinite (range (\<lambda>k. proj @ ''__'' @ uuid1 (n + k)))"
    by (rule range_inj_infinite)
  with sub show False
    using finite_subset by blast
qed

lemma task_id_sound:
  assumes "task_id uuid1 s proj n = Some y"
  shows "\<not> id_in_use s proj (fst y) \<and> fst y = proj @ ''__'' @ uuid1 (snd y - 1) \<and> n < snd y"
proof (rule task_id.raw_induct
        [where P = "\<lambda>uuid1 s proj n y. \<not> id_in_use s proj (fst y) \<and>
                      fst y = proj @ ''__'' @ uuid1 (snd y - 1) \<and> n < snd y", OF _ assms],
       goal_cases)
  case (1 f uuid1 s proj n y)
  show ?case
  proof (cases "id_in_use s proj (proj @ ''__'' @ uuid1 n)")
    case True
    with 1(2) have "f uuid1 s proj (Suc n) = Some y" by simp
    from 1(1) [OF this] show ?thesis by auto
  next
    case False
    with 1(2) show ?thesis by auto
  qed
qed

lemma inj_letters: "inj letters"
proof (rule injI)
  fix x y assume "letters x = letters y"
  then have "length (letters x) = length (letters y)" by simp
  then show "x = y" by (simp add: letters_def)
qed

text \<open>
  C8. \<^verbatim>\<open>task_id\<close> returns, when the values of \<^verbatim>\<open>uuid1\<close> are unique (the loop
  then meets a candidate that no job handle of the project carries), the project name,
  two underscores and a value of \<^verbatim>\<open>uuid1\<close>; and whatever it returns has that form and
  is the id of no job handle in the project's job list.
\<close>

theorem task_id_fresh:
  "(inj uuid1 \<longrightarrow>
      (\<exists>m. n \<le> m \<and> task_id uuid1 s proj n = Some (proj @ ''__'' @ uuid1 m, Suc m) \<and>
           proj @ ''__'' @ uuid1 m \<notin> job_id ` set (project_jobs s proj))) \<and>
   (task_id uuid1 s proj n = Some (ident, n') \<longrightarrow>
      ident \<notin> job_id ` set (project_jobs s proj) \<and>
      (\<exists>m. n \<le> m \<and> ident = proj @ ''__'' @ uuid1 m))"
proof (intro conjI impI)
  assume "inj uuid1"
  then obtain k where "\<not> id_in_use s proj (proj @ ''__'' @ uuid1 (n + k))"
    using fresh_exists by blast
  from task_id_finds [where s = s and proj = proj and ?uuid1.0 = uuid1 and n = n and k = k, OF this]
  show "\<exists>m. n \<le> m \<and> task_id uuid1 s proj n = Some (proj @ ''__'' @ uuid1 m, Suc m) \<and>
           proj @ ''__'' @ uuid1 m \<notin> job_id ` set (project_jobs s proj)"
    by (auto simp: id_in_use_iff)
next
  assume r: "task_id uuid1 s proj n = Some (ident, n')"
  from task_id_sound [OF r]
  have abc: "\<not> id_in_use s proj ident \<and> ident = proj @ ''__'' @ uuid1 (n' - 1) \<and> n < n'"
    by auto
  then have a: "\<not> id_in_use s proj ident" and b: "ident = proj @ ''__'' @ uuid1 (n' - 1)"
    and c: "n < n'"
    by blast+
  from a show "ident \<notin> job_id ` set (project_jobs s proj)"
    by (simp add: id_in_use_iff)
  from c have "n \<le> n' - 1" by simp
  with b show "\<exists>m. n \<le> m \<and> ident = proj @ ''__'' @ uuid1 m" by blast
qed

lemma task_id_taken: "task_id letters taken_tracker ''p'' 0 = Some (''p__a'', 2)"
  apply (subst task_id.simps)
  apply (subst task_id.simps)
  apply (simp add: id_in_use_def taken_tracker_def init_tracker_def project_jobs_def letters_def
      numeral_2_eq_2)
  done

theorem task_id_fresh_witness:
  "inj letters \<and> task_id letters taken_tracker ''p'' 0 = Some (''p__a'', 2) \<and>
   ''p__a'' \<notin> job_id ` set (project_jobs taken_tracker ''p'') \<and>
   (\<exists>m. task_id letters taken_tracker ''p'' 0 = Some (''p'' @ ''__'' @ letters m, Suc m) \<and>
        ''p'' @ ''__'' @ letters m \<notin> job_id ` set (project_jobs taken_tracker ''p''))"
  using task_id_fresh [where ?uuid1.0 = letters and s = taken_tracker and proj = "''p''" and n = 0
      and ident = "''p__a''" and n' = 2] inj_letters task_id_taken
  by simp

subsection \<open>Polling the result backend\<close>

lemma set_replace_char:
  "set (replace_char c r s) = (set s - {c}) \<union> (if c \<in> set s then set r else {})"
  by (induction s) (auto simp: replace_char_def)

lemma html_escape_no_markup:
  "CHR ''<'' \<notin> set (html_escape d) \<and> CHR ''>'' \<notin> set (html_escape d) \<and>
   CHR 0x22 \<notin> set (html_escape d) \<and> CHR 0x27 \<notin> set (html_escape d)"
  by (simp add: html_escape_def set_replace_char)

lemma poll_tasks_loop_messages:
  "messages (snd (poll_tasks_loop env m sm og s)) = messages s"
  by (induction m arbitrary: sm og s) (auto split: sum.splits)

lemma poll_tasks_loop_other:
  "poll_tasks_loop env m sm og s = (Inr (sm', og'), s') \<Longrightarrow>
   k \<notin> fst ` set m \<or> get_task_meta env k = [] \<Longrightarrow> map_of sm' k = map_of sm k"
proof (induction m arbitrary: sm og s)
  case Nil
  then show ?case by simp
next
  case (Cons a m)
  obtain k0 j0 where a: "a = (k0, j0)" by (cases a)
  show ?case
  proof (cases "get_task_meta env k0 = []")
    case True
    with Cons.prems a have "poll_tasks_loop env m sm og s = (Inr (sm', og'), s')" by simp
    from Cons.IH [OF this] Cons.prems(2) show ?thesis by auto
  next
    case False
    with Cons.prems a obtain entry where e: "poll_entry j0 (get_task_meta env k0) = Inr entry"
      by (auto split: sum.splits)
    from False Cons.prems(2) a have ne: "k \<noteq> k0" by auto
    from Cons.prems(2) have r: "k \<notin> fst ` set m \<or> get_task_meta env k = []" by auto
    show ?thesis
    proof (cases "ready env k0")
      case True
      with Cons.prems(1) a False e
      have "poll_tasks_loop env m (AList.update k0 entry sm) og (forget k0 s) = (Inr (sm', og'), s')"
        by simp
      from Cons.IH [OF this r] ne show ?thesis by (simp add: update_conv')
    next
      case nr: False
      with Cons.prems(1) a False e
      have "poll_tasks_loop env m (AList.update k0 entry sm) True s = (Inr (sm', og'), s')"
        by simp
      from Cons.IH [OF this r] ne show ?thesis by (simp add: update_conv')
    qed
  qed
qed

lemma poll_tasks_loop_entry:
  "poll_tasks_loop env m sm og s = (Inr (sm', og'), s') \<Longrightarrow> distinct (map fst m) \<Longrightarrow>
   (k, job) \<in> set m \<Longrightarrow> get_task_meta env k \<noteq> [] \<Longrightarrow>
   \<exists>entry. poll_entry job (get_task_meta env k) = Inr entry \<and> map_of sm' k = Some entry"
proof (induction m arbitrary: sm og s)
  case Nil
  then show ?case by simp
next
  case (Cons a m)
  obtain k0 j0 where a: "a = (k0, j0)" by (cases a)
  show ?case
  proof (cases "(k, job) = (k0, j0)")
    case True
    then have kk: "k0 = k" "j0 = job" by simp_all
    from Cons.prems(2) a kk have notin: "k \<notin> fst ` set m" by auto
    from Cons.prems(1,4) a kk obtain entry where e: "poll_entry job (get_task_meta env k) = Inr entry"
      by (auto split: sum.splits)
    from Cons.prems(1,4) a kk e obtain og1 s1 where
      "poll_tasks_loop env m (AList.update k entry sm) og1 s1 = (Inr (sm', og'), s')"
      by (cases "ready env k") auto
    from poll_tasks_loop_other [OF this] notin have "map_of sm' k = Some entry"
      by (simp add: update_conv')
    with e show ?thesis by blast
  next
    case False
    with Cons.prems(3) a have inm: "(k, job) \<in> set m" by auto
    from Cons.prems(2) have d: "distinct (map fst m)" by simp
    from Cons.prems(1) a obtain sm1 og1 s1 where
      "poll_tasks_loop env m sm1 og1 s1 = (Inr (sm', og'), s')"
      by (cases "get_task_meta env k0 = []"; cases "ready env k0")
         (auto split: sum.splits)
    from Cons.IH [OF this d inm Cons.prems(4)] show ?thesis .
  qed
qed


lemma poll_info_cases:
  "map_of msg ''status'' = Some st \<Longrightarrow>
     (st = FAILURE \<and> map_of msg ''meta'' = Some detail \<longrightarrow>
        poll_info msg = Inr (st, Message (html_escape (py_str detail)))) \<and>
     (st = FAILURE \<and> map_of msg ''meta'' = None \<longrightarrow>
        poll_info msg = Inr (st, Message ''an unknown error occurred'')) \<and>
     (st \<noteq> FAILURE \<and> map_of msg ''result'' = Some res \<longrightarrow>
        poll_info msg = Inr (st, Payload res))"
  by (simp add: poll_info_def)

text \<open>
  C2. In the status map \<^verbatim>\<open>__poll_tasks\<close> returns, the record of a task whose
  backend report has the status failure carries the message made of the HTML-escaped
  \<^verbatim>\<open>str()\<close> of the failure detail when the report has the key \<^verbatim>\<open>meta\<close>, and the
  message "an unknown error occurred" when it has not; for any other status the record
  carries the raw result payload. An escaped text holds neither \<^verbatim>\<open><\<close> nor \<^verbatim>\<open>>\<close>:
  \<^verbatim>\<open><script>\<close> becomes \<^verbatim>\<open>&lt;script&gt;\<close>.
\<close>

theorem poll_tasks_meta:
  "(poll_tasks env proj s = (Inr (status_map, ongoing), s1) \<and>
    distinct (map fst (project_messages s proj)) \<and>
    (key, job) \<in> set (project_messages s proj) \<and>
    map_of (get_task_meta env key) ''status'' = Some st \<longrightarrow>
      (st = FAILURE \<and> map_of (get_task_meta env key) ''meta'' = Some detail \<longrightarrow>
         map_of status_map key =
           Some \<lparr>type = type job, submitted = submitted job, status = FAILURE,
                 meta = Message (html_escape (py_str detail))\<rparr>) \<and>
      (st = FAILURE \<and> map_of (get_task_meta env key) ''meta'' = None \<longrightarrow>
         map_of status_map key =
           Some \<lparr>type = type job, submitted = submitted job, status = FAILURE,
                 meta = Message ''an unknown error occurred''\<rparr>) \<and>
      (st \<noteq> FAILURE \<and> map_of (get_task_meta env key) ''result'' = Some res \<longrightarrow>
         map_of status_map key =
           Some \<lparr>type = type job, submitted = submitted job, status = st,
                 meta = Payload res\<rparr>)) \<and>
   CHR ''<'' \<notin> set (html_escape d) \<and> CHR ''>'' \<notin> set (html_escape d) \<and>
   html_escape ''<script>'' = ''&lt;script&gt;''"
proof (intro conjI impI)
  assume h: "poll_tasks env proj s = (Inr (status_map, ongoing), s1) \<and>
    distinct (map fst (project_messages s proj)) \<and>
    (key, job) \<in> set (project_messages s proj) \<and>
    map_of (get_task_meta env key) ''status'' = Some st"
  then have present: "map_of (messages s) proj \<noteq> None"
    by (auto simp: project_messages_def split: option.splits)
  with h have loop:
    "poll_tasks_loop env (project_messages s proj) [] False s = (Inr (status_map, ongoing), s1)"
    by (auto simp: poll_tasks_def)
  from h have ne: "get_task_meta env key \<noteq> []" by auto
  from poll_tasks_loop_entry [OF loop _ _ ne] h obtain entry where
    e: "poll_entry job (get_task_meta env key) = Inr entry" "map_of status_map key = Some entry"
    by blast
  from h have st: "map_of (get_task_meta env key) ''status'' = Some st" by simp
  note pc = poll_info_cases [OF st]
  {
    assume "st = FAILURE \<and> map_of (get_task_meta env key) ''meta'' = Some detail"
    with pc [of detail] e
    show "map_of status_map key =
           Some \<lparr>type = type job, submitted = submitted job, status = FAILURE,
                 meta = Message (html_escape (py_str detail))\<rparr>"
      by (auto simp: poll_entry_def)
  }
  {
    assume "st = FAILURE \<and> map_of (get_task_meta env key) ''meta'' = None"
    with pc e
    show "map_of status_map key =
           Some \<lparr>type = type job, submitted = submitted job, status = FAILURE,
                 meta = Message ''an unknown error occurred''\<rparr>"
      by (auto simp: poll_entry_def)
  }
  {
    assume "st \<noteq> FAILURE \<and> map_of (get_task_meta env key) ''result'' = Some res"
    with pc [of _ res] e
    show "map_of status_map key =
           Some \<lparr>type = type job, submitted = submitted job, status = st,
                 meta = Payload res\<rparr>"
      by (auto simp: poll_entry_def)
  }
next
  show "CHR ''<'' \<notin> set (html_escape d)" "CHR ''>'' \<notin> set (html_escape d)"
    using html_escape_no_markup [of d] by simp_all
  show "html_escape ''<script>'' = ''&lt;script&gt;''"
    by (simp add: html_escape_def replace_char_def)
qed

lemma poll_tasks_failing:
  "poll_tasks failing_env ''p'' polled_tracker =
     (Inr (polled_status, False),
      polled_tracker\<lparr>forgotten := [''t1'', ''t2'', ''t3'']\<rparr>)"
  by (simp add: poll_tasks_def failing_env_def polled_tracker_def init_tracker_def
      project_messages_def poll_entry_def poll_info_def forget_def polled_status_def
      FAILURE_def SUCCESS_def PENDING_def html_escape_def replace_char_def)


theorem poll_tasks_meta_witness:
  "fst (poll_tasks failing_env ''p'' polled_tracker) = Inr (polled_status, False) \<and>
   map_of polled_status ''t1'' =
     Some \<lparr>type = ''train'', submitted = ''t0'', status = FAILURE,
           meta = Message ''&lt;script&gt;''\<rparr> \<and>
   map_of polled_status ''t2'' =
     Some \<lparr>type = ''train'', submitted = ''t0'', status = FAILURE,
           meta = Message ''an unknown error occurred''\<rparr> \<and>
   map_of polled_status ''t3'' =
     Some \<lparr>type = ''inference'', submitted = ''t0'', status = SUCCESS,
           meta = Payload (PyObj ''42'')\<rparr>"
  using
    poll_tasks_meta
      [where env = failing_env and proj = "''p''" and s = polled_tracker
         and status_map = polled_status and ongoing = False
         and ?s1.0 = "polled_tracker\<lparr>forgotten := [''t1'', ''t2'', ''t3'']\<rparr>"
         and key = "''t1''"
         and job = "\<lparr>type = ''train'', submitted = ''t0'', status = PENDING, meta = Message ''job at worker''\<rparr>"
         and st = FAILURE and detail = "PyObj ''<script>''" and res = "PyObj ''None''" and d = "''<b>''"]
    poll_tasks_meta
      [where env = failing_env and proj = "''p''" and s = polled_tracker
         and status_map = polled_status and ongoing = False
         and ?s1.0 = "polled_tracker\<lparr>forgotten := [''t1'', ''t2'', ''t3'']\<rparr>"
         and key = "''t2''"
         and job = "\<lparr>type = ''train'', submitted = ''t0'', status = PENDING, meta = Message ''job at worker''\<rparr>"
         and st = FAILURE and detail = "PyObj ''<script>''" and res = "PyObj ''None''" and d = "''<b>''"]
    poll_tasks_meta
      [where env = failing_env and proj = "''p''" and s = polled_tracker
         and status_map = polled_status and ongoing = False
         and ?s1.0 = "polled_tracker\<lparr>forgotten := [''t1'', ''t2'', ''t3'']\<rparr>"
         and key = "''t3''"
         and job = "\<lparr>type = ''inference'', submitted = ''t0'', status = PENDING, meta = Message ''job at worker''\<rparr>"
         and st = SUCCESS and detail = "PyObj ''<script>''" and res = "PyObj ''42''" and d = "''<b>''"]
    poll_tasks_failing
  by (simp add: failing_env_def polled_tracker_def init_tracker_def project_messages_def
      FAILURE_def SUCCESS_def html_escape_def replace_char_def)

subsection \<open>The public poll\<close>

lemma add_worker_task_keeps:
  "map_of (project_messages s p) k = Some r \<Longrightarrow>
   map_of (project_messages (add_worker_task env t s) p) k = Some r"
  by (auto simp: add_worker_task_def Let_def update_conv')

lemma worker_tasks_loop_keeps:
  "map_of (project_messages s p) k = Some r \<Longrightarrow>
   map_of (project_messages (snd (worker_tasks_loop env proj ts acc s)) p) k = Some r"
  by (induction ts arbitrary: acc s) (auto intro: add_worker_task_keeps)

lemma poll_worker_keeps:
  "map_of (project_messages s p) k = Some r \<Longrightarrow>
   map_of (project_messages (snd (poll_worker env proj key s)) p) k = Some r"
  by (auto simp: poll_worker_def Let_def worker_tasks_loop_keeps split: option.splits)

lemma poll_workers_loop_keeps:
  "map_of (project_messages s p) k = Some r \<Longrightarrow>
   map_of (project_messages (snd (poll_workers_loop env proj keys ws s)) p) k = Some r"
  by (induction keys arbitrary: ws s) (auto simp: poll_worker_keeps split: sum.splits)

lemma poll_worker_status_keeps:
  "map_of (project_messages s p) k = Some r \<Longrightarrow>
   map_of (project_messages (snd (poll_worker_status env proj s)) p) k = Some r"
  by (auto simp: poll_worker_status_def poll_workers_loop_keeps split: option.splits)

lemma poll_tasks_keeps:
  "project_messages (snd (poll_tasks env proj s)) = project_messages s"
  by (rule project_messages_cong) (simp add: poll_tasks_def poll_tasks_loop_messages)

lemma poll_tasks_skips:
  "poll_tasks env proj s = (Inr (sm, og), s1) \<Longrightarrow> get_task_meta env k = [] \<Longrightarrow>
   map_of sm k = None"
  by (auto simp: poll_tasks_def dest: poll_tasks_loop_other [where k = k] split: if_splits)

lemma poll_entry_readable:
  "meta_readable msg \<Longrightarrow> msg \<noteq> [] \<Longrightarrow> \<exists>entry. poll_entry job msg = Inr entry"
  by (auto simp: meta_readable_def poll_entry_def poll_info_def split: option.splits)

lemma poll_tasks_loop_returns:
  "\<forall>k. meta_readable (get_task_meta env k) \<Longrightarrow>
   \<exists>res. fst (poll_tasks_loop env m sm og s) = Inr res"
proof (induction m arbitrary: sm og s)
  case Nil
  then show ?case by simp
next
  case (Cons a m)
  obtain k0 j0 where a: "a = (k0, j0)" by (cases a)
  show ?case
  proof (cases "get_task_meta env k0 = []")
    case True
    with a Cons show ?thesis by simp
  next
    case False
    with Cons.prems obtain entry where "poll_entry j0 (get_task_meta env k0) = Inr entry"
      using poll_entry_readable by blast
    with a False Cons show ?thesis by simp
  qed
qed

lemma poll_tasks_returns:
  assumes "\<forall>k. meta_readable (get_task_meta env k)"
  shows "\<exists>res. fst (poll_tasks env proj s) = Inr res"
proof (cases "map_of (messages s) proj = None")
  case True
  then have "fst (poll_tasks env proj s) = Inr ([], False)" by (simp add: poll_tasks_def)
  then show ?thesis by (rule exI)
next
  case False
  from poll_tasks_loop_returns [OF assms] obtain res where
    "fst (poll_tasks_loop env (project_messages s proj) [] False s) = Inr res" by blast
  with False have "fst (poll_tasks env proj s) = Inr res" by (auto simp: poll_tasks_def)
  then show ?thesis by (rule exI)
qed

lemma poll_workers_loop_returns:
  "active env = Some act \<Longrightarrow> scheduled env = Some sch \<Longrightarrow>
   list_all (\<lambda>key. map_of act key \<noteq> None \<and> map_of sch key \<noteq> None) keys \<Longrightarrow>
   \<exists>res. fst (poll_workers_loop env proj keys ws s) = Inr res"
  by (induction keys arbitrary: ws s) (auto simp: poll_worker_def Let_def)

lemma poll_worker_status_returns:
  "inspect_complete env \<Longrightarrow> \<exists>res. fst (poll_worker_status env proj s) = Inr res"
  by (auto simp: inspect_complete_def poll_worker_status_def poll_workers_loop_returns
      split: option.splits)


lemma poll_status_skips:
  "poll_status env proj s = (Inr st, s1) \<Longrightarrow> get_task_meta env key = [] \<Longrightarrow>
   map_of st key = None"
  by (auto simp: poll_status_def split: prod.splits sum.splits if_splits dest: poll_tasks_skips)

lemma poll_status_keeps:
  assumes "map_of (project_messages s proj) key = Some r"
  shows "map_of (project_messages (snd (poll_status env proj s)) proj) key = Some r"
proof -
  obtain r1 s1 where p1: "poll_tasks env proj s = (r1, s1)" by (cases "poll_tasks env proj s")
  have k1: "map_of (project_messages s1 proj) key = Some r"
    using poll_tasks_keeps [of env proj s] p1 assms by simp
  obtain r2 s2 where p2: "poll_worker_status env proj s1 = (r2, s2)"
    by (cases "poll_worker_status env proj s1")
  have k2: "map_of (project_messages s2 proj) key = Some r"
    using poll_worker_status_keeps [OF k1, of env proj] p2 by simp
  obtain r3 s3 where p3: "poll_tasks env proj s2 = (r3, s3)" by (cases "poll_tasks env proj s2")
  have k3: "map_of (project_messages s3 proj) key = Some r"
    using poll_tasks_keeps [of env proj s2] p3 k2 by simp
  show ?thesis
    using p1 p2 p3 k1 k2 k3
    by (auto simp: poll_status_def split: prod.splits sum.splits if_splits)
qed

lemma poll_status_returns:
  assumes "inspect_complete env" and "\<forall>k. meta_readable (get_task_meta env k)"
  shows "\<exists>st. fst (poll_status env proj s) = Inr st"
proof -
  obtain r1 s1 where p1: "poll_tasks env proj s = (r1, s1)" by (cases "poll_tasks env proj s")
  obtain r2 s2 where p2: "poll_worker_status env proj s1 = (r2, s2)"
    by (cases "poll_worker_status env proj s1")
  obtain r3 s3 where p3: "poll_tasks env proj s2 = (r3, s3)" by (cases "poll_tasks env proj s2")
  from poll_tasks_returns [OF assms(2), of proj s] p1 obtain sm og where r1: "r1 = Inr (sm, og)"
    by auto
  from poll_worker_status_returns [OF assms(1), of proj s1] p2 obtain ws where r2: "r2 = Inr ws"
    by auto
  from poll_tasks_returns [OF assms(2), of proj s2] p3 obtain sm3 og3 where r3: "r3 = Inr (sm3, og3)"
    by auto
  show ?thesis
    using p1 p2 p3 r1 r2 r3 by (simp add: poll_status_def)
qed

text \<open>
  C7, as amended. For a tracked task whose stored metadata is empty: whenever
  \<^verbatim>\<open>poll_status\<close> returns, the task is absent from the status map returned; its local
  status record is the same afterwards, whether \<^verbatim>\<open>poll_status\<close> returned or raised;
  and \<^verbatim>\<open>poll_status\<close> returns when the report of the workers is absent, empty or
  complete and the stored metadata of every task is empty or has the keys read.
\<close>

theorem poll_status_skips_empty:
  "map_of (project_messages s proj) key = Some r \<and> get_task_meta env key = [] \<longrightarrow>
     (\<forall>st s1. poll_status env proj s = (Inr st, s1) \<longrightarrow> map_of st key = None) \<and>
     map_of (project_messages (snd (poll_status env proj s)) proj) key = Some r \<and>
     (inspect_complete env \<and> (\<forall>k. meta_readable (get_task_meta env k)) \<longrightarrow>
        (\<exists>st. fst (poll_status env proj s) = Inr st))"
  using poll_status_skips poll_status_keeps poll_status_returns by blast

lemma poll_status_busy:
  "poll_status busy_env ''p'' busy_tracker = (Inr [], busy_tracker)"
  by (simp add: poll_status_def poll_tasks_def poll_worker_status_def poll_worker_def
      busy_env_def busy_tracker_def project_messages_def add_worker_task_def Let_def
      ensure_messages_def)

theorem poll_status_skips_empty_witness:
  "map_of (project_messages busy_tracker ''p'') ''t1'' =
     Some \<lparr>type = ''train'', submitted = ''t0'', status = PENDING,
           meta = Message ''job at worker''\<rparr> \<and>
   get_task_meta busy_env ''t1'' = [] \<and>
   poll_status busy_env ''p'' busy_tracker = (Inr [], busy_tracker) \<and>
   map_of (project_messages (snd (poll_status busy_env ''p'' busy_tracker)) ''p'') ''t1'' =
     Some \<lparr>type = ''train'', submitted = ''t0'', status = PENDING,
           meta = Message ''job at worker''\<rparr> \<and>
   inspect_complete busy_env \<and>
   (\<exists>st. fst (poll_status busy_env ''p'' busy_tracker) = Inr st)"
  using poll_status_skips_empty
    [where s = busy_tracker and proj = "''p''" and key = "''t1''" and env = busy_env
       and r = "\<lparr>type = ''train'', submitted = ''t0'', status = PENDING,
                  meta = Message ''job at worker''\<rparr>"]
    poll_status_busy
  by (simp add: busy_tracker_def busy_env_def project_messages_def inspect_complete_def
      meta_readable_def)

text \<open>
  C7, as stated, fails: with worker statistics at hand and \<^verbatim>\<open>active()\<close> giving
  \<^verbatim>\<open>None\<close>, \<^verbatim>\<open>poll_status\<close> raises \<^verbatim>\<open>TypeError\<close> although the only tracked task has
  no stored metadata.
\<close>

theorem poll_status_raises_counterexample:
  "map_of (project_messages busy_tracker ''p'') ''t1'' \<noteq> None \<and>
   get_task_meta (busy_env\<lparr>active := None\<rparr>) ''t1'' = [] \<and>
   poll_status (busy_env\<lparr>active := None\<rparr>) ''p'' busy_tracker = (Inl TypeError, busy_tracker)"
  by (simp add: poll_status_def poll_tasks_def poll_worker_status_def poll_worker_def
      busy_env_def busy_tracker_def project_messages_def)

subsection \<open>The dictionaries of status records keep distinct keys\<close>

text \<open>
  The status records of a project form a \<^verbatim>\<open>dict\<close>: no key occurs twice. Every
  operation of the tracker keeps it so, starting from the empty tracker.
\<close>

lemma keys_distinct_init: "keys_distinct init_tracker"
  by (simp add: keys_distinct_def project_messages_def init_tracker_def)

lemma keys_distinct_set_message: "keys_distinct s \<Longrightarrow> keys_distinct (set_message p k r s)"
  by (simp add: keys_distinct_def distinct_update)

lemma keys_distinct_cong: "project_messages s' = project_messages s \<Longrightarrow> keys_distinct s' = keys_distinct s"
  by (simp add: keys_distinct_def)

lemma distinct_fold_update:
  "distinct (map fst m) \<Longrightarrow> distinct (map fst (foldl (\<lambda>m c. AList.update c r m) m cs))"
  by (induction cs arbitrary: m) (simp_all add: distinct_update)

lemma project_messages_register_job:
  "project_messages (register_job env proj j taskType cb s) q =
     (if q \<noteq> proj then project_messages s q
      else (case children j of
              Some cs \<Rightarrow>
                foldl (\<lambda>m c. AList.update c (new_record env taskType) m) (project_messages s proj) cs
            | None \<Rightarrow>
                if map_of (project_messages s proj) (job_id j) = None
                then AList.update (job_id j) (new_record env taskType) (project_messages s proj)
                else project_messages s proj))"
  by (auto simp: register_job_def Let_def project_messages_fold_set_message split: option.splits)

lemma keys_distinct_register_job:
  "keys_distinct s \<Longrightarrow> keys_distinct (register_job env proj j taskType cb s)"
  by (simp add: keys_distinct_def project_messages_register_job distinct_update
      distinct_fold_update split: option.splits)

lemma keys_distinct_pollNow_task: "keys_distinct s \<Longrightarrow> keys_distinct (pollNow_task env s t)"
  by (simp add: pollNow_task_def Let_def keys_distinct_def distinct_update)

lemma keys_distinct_foldl_pollNow_task:
  "keys_distinct s \<Longrightarrow> keys_distinct (foldl (pollNow_task env) s ts)"
  by (induction ts arbitrary: s) (simp_all add: keys_distinct_pollNow_task)

lemma keys_distinct_pollNow: "keys_distinct s \<Longrightarrow> pollNow env s = Inr s1 \<Longrightarrow> keys_distinct s1"
  by (auto simp: pollNow_sweep sweep_flat keys_distinct_foldl_pollNow_task
      split: option.splits if_splits)


lemma keys_distinct_add_worker_task:
  "keys_distinct s \<Longrightarrow> keys_distinct (add_worker_task env t s)"
  by (simp add: add_worker_task_def Let_def keys_distinct_def distinct_update)

lemma keys_distinct_worker_tasks_loop:
  "keys_distinct s \<Longrightarrow> keys_distinct (snd (worker_tasks_loop env proj ts acc s))"
  by (induction ts arbitrary: acc s) (simp_all add: keys_distinct_add_worker_task)

lemma keys_distinct_poll_worker:
  "keys_distinct s \<Longrightarrow> keys_distinct (snd (poll_worker env proj key s))"
  by (simp add: poll_worker_def Let_def keys_distinct_worker_tasks_loop split: option.splits)

lemma keys_distinct_poll_workers_loop:
  "keys_distinct s \<Longrightarrow> keys_distinct (snd (poll_workers_loop env proj keys ws s))"
  by (induction keys arbitrary: ws s) (simp_all add: keys_distinct_poll_worker split: sum.splits)

lemma keys_distinct_poll_worker_status:
  "keys_distinct s \<Longrightarrow> keys_distinct (snd (poll_worker_status env proj s))"
  by (simp add: poll_worker_status_def keys_distinct_poll_workers_loop split: option.splits)

lemma keys_distinct_poll_tasks:
  "keys_distinct s \<Longrightarrow> keys_distinct (snd (poll_tasks env proj s))"
  by (simp add: keys_distinct_def poll_tasks_keeps)

lemma keys_distinct_poll_status:
  assumes "keys_distinct s"
  shows "keys_distinct (snd (poll_status env proj s))"
proof -
  obtain r1 s1 where p1: "poll_tasks env proj s = (r1, s1)" by (cases "poll_tasks env proj s")
  have k1: "keys_distinct s1" using keys_distinct_poll_tasks [OF assms, of env proj] p1 by simp
  obtain r2 s2 where p2: "poll_worker_status env proj s1 = (r2, s2)"
    by (cases "poll_worker_status env proj s1")
  have k2: "keys_distinct s2" using keys_distinct_poll_worker_status [OF k1, of env proj] p2 by simp
  obtain r3 s3 where p3: "poll_tasks env proj s2 = (r3, s3)" by (cases "poll_tasks env proj s2")
  have k3: "keys_distinct s3" using keys_distinct_poll_tasks [OF k2, of env proj] p3 by simp
  show ?thesis
    using p1 p2 p3 k1 k2 k3
    by (auto simp: poll_status_def split: prod.splits sum.splits if_splits)
qed

end
